theory Spec2Isabelle
  imports Complex_Main
begin

section \<open>Transcript chunking (ingest.ts)\<close>

text \<open>
  A JavaScript string is a sequence of UTF-16 code units; \<open>length\<close> and
  \<open>substring\<close> count code units. The chunker never looks at the units themselves,
  so it is modelled over lists of any element type.
\<close>

definition CHUNK_SIZE :: nat where
  "CHUNK_SIZE = 1000"

definition CHUNK_OVERLAP :: nat where
  "CHUNK_OVERLAP = 150"

text \<open>
  \<open>String.prototype.substring(a, b)\<close> on non-negative integers: both indices are
  clamped to the length and swapped when \<open>a > b\<close>.
\<close>

definition substring :: "'a list \<Rightarrow> nat \<Rightarrow> nat \<Rightarrow> 'a list" where
  "substring s a b =
     (let lo = min (min a b) (length s); hi = min (max a b) (length s)
      in take (hi - lo) (drop lo s))"

text \<open>
  The \<open>while (start < text.length)\<close> loop of \<open>chunkText\<close>, with the loop variables
  \<open>start\<close> and \<open>chunks\<close> as arguments. It is the same in both copies of ingest.ts.
\<close>

function chunkText_loop :: "'a list \<Rightarrow> nat \<Rightarrow> 'a list list \<Rightarrow> 'a list list" where
  "chunkText_loop text start chunks =
     (if start < length text
      then (let e = min (start + CHUNK_SIZE) (length text)
            in chunkText_loop text (start + (CHUNK_SIZE - CHUNK_OVERLAP))
                 (chunks @ [substring text start e]))
      else chunks)"
  by pat_completeness auto
termination
  by (relation "measure (\<lambda>(text, start, chunks). length text - start)")
     (auto simp: CHUNK_SIZE_def CHUNK_OVERLAP_def)

declare chunkText_loop.simps [simp del]

definition chunkText :: "'a list \<Rightarrow> 'a list list" where
  "chunkText text = chunkText_loop text 0 []"

section \<open>JavaScript values\<close>

text \<open>
  The text returned by the generation provider is a JavaScript string, a sequence of
  UTF-16 code units; it is modelled as the list of its code units. \<open>js\<close> writes such
  a string from a literal.
\<close>

type_synonym jsstring = "nat list"

definition js :: "string \<Rightarrow> jsstring" where
  "js s = map of_char s"

text \<open>
  The values \<open>JSON.parse\<close> returns. Numbers are IEEE doubles in the program and real
  numbers here; an object keeps its members in source order, a repeated key included.
\<close>

datatype json =
    JNull
  | JBool bool
  | JNum real
  | JStr jsstring
  | JArr "json list"
  | JObj "(jsstring \<times> json) list"

text \<open>An exception object: its class and its \<open>message\<close>.\<close>

datatype js_error =
    SyntaxError (message: jsstring)
  | TypeError (message: jsstring)
  | Error (message: jsstring)
  | APIError (message: jsstring)

text \<open>
  \<open>String.prototype.indexOf\<close> and \<open>lastIndexOf\<close> for a single unit: the position of
  the first (last) occurrence, \<open>-1\<close> when there is none.
\<close>

fun indexOf :: "'a list \<Rightarrow> 'a \<Rightarrow> int" where
  "indexOf [] c = - 1"
| "indexOf (x # xs) c =
     (if x = c then 0 else (let i = indexOf xs c in if i < 0 then - 1 else i + 1))"

definition lastIndexOf :: "'a list \<Rightarrow> 'a \<Rightarrow> int" where
  "lastIndexOf s c =
     (let i = indexOf (rev s) c in if i < 0 then - 1 else int (length s) - 1 - i)"

text \<open>\<open>String.prototype.includes\<close>: the needle occurs as a contiguous run.\<close>

fun str_includes :: "'a list \<Rightarrow> 'a list \<Rightarrow> bool" where
  "str_includes [] needle = (needle = [])"
| "str_includes (x # xs) needle =
     (take (length needle) (x # xs) = needle \<or> str_includes xs needle)"

text \<open>
  \<open>String.prototype.toLowerCase\<close> on the code units below 256: the ASCII capitals and
  the Latin-1 capitals (U+00C0 to U+00DE without the multiplication sign) move up by 32.
\<close>

definition lower_char :: "char \<Rightarrow> char" where
  "lower_char c =
     (let n = (of_char c :: nat)
      in if (65 \<le> n \<and> n \<le> 90) \<or> (192 \<le> n \<and> n \<le> 222 \<and> n \<noteq> 215)
         then char_of (n + 32) else c)"

definition toLowerCase :: "string \<Rightarrow> string" where
  "toLowerCase s = map lower_char s"

text \<open>\<open>Array.prototype.join\<close> on strings.\<close>

fun join :: "string list \<Rightarrow> string \<Rightarrow> string" where
  "join [] sep = []"
| "join [x] sep = x"
| "join (x # y # ys) sep = x @ sep @ join (y # ys) sep"

text \<open>
  Reading a property of a parsed value, for the property names the program reads
  (\<open>semantic_relevance\<close>, \<open>intro_support\<close>, \<open>honesty_risk\<close>, \<open>allowed\<close>, \<open>titles\<close>,
  \<open>thumbnails\<close>, \<open>notes\<close>; none of them is a property of a string, number, boolean
  or array). \<open>None\<close> is \<open>undefined\<close>. Of a repeated key the last member counts.
  Reading a property of \<open>null\<close> throws; that case is in \<open>validate_structure\<close>.
\<close>

fun get_prop :: "json \<Rightarrow> jsstring \<Rightarrow> json option" where
  "get_prop (JObj members) k = map_of (rev members) k"
| "get_prop v k = None"

section \<open>A model of JSON.parse\<close>

text \<open>
  The JSON grammar of ECMA-404, which \<open>JSON.parse\<close> accepts: four whitespace
  units; objects, arrays, strings with their escapes (a \<open>\\u\<close> escape gives its
  code unit), numbers, and the three literals. \<open>None\<close> is the SyntaxError.
  The evaluation client takes its parser as a parameter; this one serves to run it
  on concrete responses.
\<close>

definition is_ws :: "nat \<Rightarrow> bool" where
  "is_ws c = (c = 32 \<or> c = 9 \<or> c = 10 \<or> c = 13)"

definition skip_ws :: "nat list \<Rightarrow> nat list" where
  "skip_ws cs = dropWhile is_ws cs"

definition is_digit :: "nat \<Rightarrow> bool" where
  "is_digit c = (48 \<le> c \<and> c \<le> 57)"

definition hex_value :: "nat \<Rightarrow> nat option" where
  "hex_value c =
     (if 48 \<le> c \<and> c \<le> 57 then Some (c - 48)
      else if 97 \<le> c \<and> c \<le> 102 then Some (c - 87)
      else if 65 \<le> c \<and> c \<le> 70 then Some (c - 55)
      else None)"

definition escape_value :: "nat \<Rightarrow> nat option" where
  "escape_value e =
     (if e = 34 then Some 34
      else if e = 92 then Some 92
      else if e = 47 then Some 47
      else if e = 98 then Some 8
      else if e = 102 then Some 12
      else if e = 110 then Some 10
      else if e = 114 then Some 13
      else if e = 116 then Some 9
      else None)"

definition prepend :: "'a \<Rightarrow> ('a list \<times> 'b) option \<Rightarrow> ('a list \<times> 'b) option" where
  "prepend x r = map_option (\<lambda>(xs, rest). (x # xs, rest)) r"

fun parse_string_body :: "nat list \<Rightarrow> (jsstring \<times> nat list) option" where
  "parse_string_body [] = None"
| "parse_string_body (c # cs) =
     (if c = 34 then Some ([], cs)
      else if c = 92 then
        (case cs of
           [] \<Rightarrow> None
         | e # cs1 \<Rightarrow>
             if e = 117 then
               (case cs1 of
                  h1 # h2 # h3 # h4 # cs2 \<Rightarrow>
                    (case (hex_value h1, hex_value h2, hex_value h3, hex_value h4) of
                       (Some a, Some b, Some c', Some d) \<Rightarrow>
                         prepend (((a * 16 + b) * 16 + c') * 16 + d) (parse_string_body cs2)
                     | _ \<Rightarrow> None)
                | _ \<Rightarrow> None)
             else
               (case escape_value e of
                  None \<Rightarrow> None
                | Some u \<Rightarrow> prepend u (parse_string_body cs1)))
      else if c < 32 then None
      else prepend c (parse_string_body cs))"

definition digits_value :: "nat list \<Rightarrow> nat" where
  "digits_value ds = foldl (\<lambda>acc d. 10 * acc + (d - 48)) 0 ds"

definition scale10 :: "real \<Rightarrow> int \<Rightarrow> real" where
  "scale10 x e = (if e \<ge> 0 then x * 10 ^ nat e else x / 10 ^ nat (- e))"

definition parse_number :: "nat list \<Rightarrow> (real \<times> nat list) option" where
  "parse_number cs =
     (let negative = (cs \<noteq> [] \<and> hd cs = 45);
          r0 = (if negative then tl cs else cs);
          ip = takeWhile is_digit r0;
          r1 = dropWhile is_digit r0;
          has_frac = (r1 \<noteq> [] \<and> hd r1 = 46);
          fp = (if has_frac then takeWhile is_digit (tl r1) else []);
          r2 = (if has_frac then dropWhile is_digit (tl r1) else r1);
          has_exp = (r2 \<noteq> [] \<and> (hd r2 = 101 \<or> hd r2 = 69));
          r3 = (if has_exp then tl r2 else r2);
          exp_negative = (has_exp \<and> r3 \<noteq> [] \<and> hd r3 = 45);
          r4 = (if has_exp \<and> r3 \<noteq> [] \<and> (hd r3 = 45 \<or> hd r3 = 43) then tl r3 else r3);
          ep = (if has_exp then takeWhile is_digit r4 else []);
          r5 = (if has_exp then dropWhile is_digit r4 else r2);
          e = (if exp_negative then - int (digits_value ep) else int (digits_value ep));
          magnitude = scale10 (real (digits_value (ip @ fp))) (e - int (length fp))
      in if ip = [] \<or> (length ip > 1 \<and> hd ip = 48) \<or> (has_frac \<and> fp = []) \<or>
            (has_exp \<and> ep = [])
         then None
         else Some (if negative then - magnitude else magnitude, r5))"

lemma length_skip_ws: "length (skip_ws cs) \<le> length cs"
  by (simp add: skip_ws_def length_dropWhile_le)

lemma skip_ws_Cons_length: "skip_ws cs = c # r \<Longrightarrow> length r < length cs"
  using length_skip_ws [of cs] by simp

text \<open>
  The three mutually recursive parsers return the value and the rest of the input.
  The tests \<open>length r < length cs\<close> are always true (a value takes at least one
  unit); they only make it evident that the recursion ends.
\<close>

function (sequential) parse_value :: "nat list \<Rightarrow> (json \<times> nat list) option"
  and parse_elements :: "nat list \<Rightarrow> (json list \<times> nat list) option"
  and parse_members :: "nat list \<Rightarrow> ((jsstring \<times> json) list \<times> nat list) option"
where
  "parse_value cs =
     (case skip_ws cs of
        [] \<Rightarrow> None
      | c # r \<Rightarrow>
          if c = 123 then
            (case skip_ws r of
               [] \<Rightarrow> None
             | c1 # r1 \<Rightarrow>
                 if c1 = 125 then Some (JObj [], r1)
                 else map_option (\<lambda>(ms, rest). (JObj ms, rest)) (parse_members (c1 # r1)))
          else if c = 91 then
            (case skip_ws r of
               [] \<Rightarrow> None
             | c1 # r1 \<Rightarrow>
                 if c1 = 93 then Some (JArr [], r1)
                 else map_option (\<lambda>(vs, rest). (JArr vs, rest)) (parse_elements (c1 # r1)))
          else if c = 34 then
            map_option (\<lambda>(s, rest). (JStr s, rest)) (parse_string_body r)
          else if c = 45 \<or> is_digit c then
            map_option (\<lambda>(x, rest). (JNum x, rest)) (parse_number (c # r))
          else if take 4 (c # r) = js ''true'' then Some (JBool True, drop 4 (c # r))
          else if take 5 (c # r) = js ''false'' then Some (JBool False, drop 5 (c # r))
          else if take 4 (c # r) = js ''null'' then Some (JNull, drop 4 (c # r))
          else None)"
| "parse_elements cs =
     (case parse_value cs of
        None \<Rightarrow> None
      | Some (v, r) \<Rightarrow>
          if length r < length cs then
            (case skip_ws r of
               [] \<Rightarrow> None
             | c # r1 \<Rightarrow>
                 if c = 44 then prepend v (parse_elements r1)
                 else if c = 93 then Some ([v], r1)
                 else None)
          else None)"
| "parse_members cs =
     (case skip_ws cs of
        [] \<Rightarrow> None
      | q # r \<Rightarrow>
          if q = 34 then
            (case parse_string_body r of
               None \<Rightarrow> None
             | Some (k, r1) \<Rightarrow>
                 (case skip_ws r1 of
                    [] \<Rightarrow> None
                  | c # r2 \<Rightarrow>
                      if c = 58 \<and> length r2 < length cs then
                        (case parse_value r2 of
                           None \<Rightarrow> None
                         | Some (v, r3) \<Rightarrow>
                             if length r3 < length r2 then
                               (case skip_ws r3 of
                                  [] \<Rightarrow> None
                                | c' # r4 \<Rightarrow>
                                    if c' = 44 then prepend (k, v) (parse_members r4)
                                    else if c' = 125 then Some ([(k, v)], r4)
                                    else None)
                             else None)
                      else None))
          else None)"
  by pat_completeness auto

termination
  apply (relation "inv_image (measure (\<lambda>n. n) <*lex*> measure (\<lambda>n. n))
     (\<lambda>x. case x of Inl cs \<Rightarrow> (length cs, 0::nat)
                | Inr (Inl cs) \<Rightarrow> (length cs, 1)
                | Inr (Inr cs) \<Rightarrow> (length cs, 1))")
  apply (auto dest!: skip_ws_Cons_length)
  done

declare parse_value.simps [simp del] parse_elements.simps [simp del] parse_members.simps [simp del]

text \<open>A whole text: one value, then nothing but whitespace.\<close>

definition parse_json :: "jsstring \<Rightarrow> json option" where
  "parse_json s =
     (case parse_value s of
        None \<Rightarrow> None
      | Some (v, rest) \<Rightarrow> if skip_ws rest = [] then Some v else None)"

text \<open>
  \<open>JSON.parse\<close> as a collaborator of the evaluation client; \<open>msg\<close> gives the text
  of the engine's SyntaxError for an input.
\<close>

definition JSON_parse_with :: "(jsstring \<Rightarrow> jsstring) \<Rightarrow> jsstring \<Rightarrow> js_error + json" where
  "JSON_parse_with msg s =
     (case parse_json s of None \<Rightarrow> Inl (SyntaxError (msg s)) | Some v \<Rightarrow> Inr v)"

section \<open>Data model (types.ts, db.ts)\<close>

record Video =
  video_id :: string
  title_current :: string
  transcript_full :: string
  transcript_intro :: string
  published_at :: string
  url :: "string option"

text \<open>
  A chunk row as \<open>getAllChunks\<close> returns it. The stored blob of 32-bit floats is
  modelled as the list of the numbers it holds.
\<close>

record VideoChunk =
  video_id :: string
  chunk_id :: nat
  chunk_text :: string
  embedding :: "real list"

record Trend =
  trend_id :: string
  title :: string
  summary :: string
  "keywords" :: string
  source :: string
  created_at :: string

text \<open>
  The evaluation object. The four fields that \<open>evaluateWithLLM\<close> type-checks carry
  their checked type; the three it does not check are whatever the parsed object
  holds under that name (\<open>None\<close> when the property is absent). No other property of
  the parsed object is ever read.
\<close>

record LLMEvaluation =
  semantic_relevance :: real
  intro_support :: real
  honesty_risk :: real
  allowed :: bool
  titles :: "json option"
  thumbnails :: "json option"
  "notes" :: "json option"

text \<open>
  A row of the \<open>recommendations\<close> table. \<open>titles\<close> and \<open>thumbnails\<close> hold the value
  that the program serialises with \<open>JSON.stringify\<close> before storing it.
\<close>

record Recommendation =
  trend_id :: string
  video_id :: string
  semantic_relevance :: real
  intro_support :: real
  honesty_risk :: real
  titles :: "json option"
  thumbnails :: "json option"
  "notes" :: "json option"

record YouTubeVideoSuggestion =
  title :: string
  views :: nat
  channelTitle :: string
  videoId :: string
  thumbnailUrl :: string
  publishedAt :: string

text \<open>The result object pushed to \<open>matchedVideos\<close> by the server handler.\<close>

record MatchedVideo =
  trend :: string
  video :: string
  video_intro :: string
  scores :: "real \<times> real \<times> real"
  packaging :: "json option \<times> json option \<times> json option"

record TrendRecommendations =
  trend :: Trend
  youtubeSuggestions :: "YouTubeVideoSuggestion list"
  matchedVideos :: "MatchedVideo list"

record CandidateVideo =
  video :: Video
  avgSimilarity :: real
  topChunks :: "string list"

subsection \<open>The database\<close>

text \<open>
  One list of rows per table, each in the order in which the table's \<open>SELECT\<close>
  returns its rows. \<open>recommendations\<close> has the primary key
  \<open>(trend_id, video_id)\<close> and is written with \<open>INSERT OR REPLACE\<close>.
\<close>

record DB =
  videos :: "Video list"
  video_chunks :: "VideoChunk list"
  trends :: "Trend list"
  recommendations :: "Recommendation list"

definition getAllVideos :: "DB \<Rightarrow> Video list" where
  "getAllVideos d = videos d"

definition getAllTrends :: "DB \<Rightarrow> Trend list" where
  "getAllTrends d = trends d"

definition getTrend :: "DB \<Rightarrow> string \<Rightarrow> Trend option" where
  "getTrend d tid = find (\<lambda>t. Trend.trend_id t = tid) (trends d)"

definition getAllChunks :: "DB \<Rightarrow> VideoChunk list" where
  "getAllChunks d = video_chunks d"

definition same_key :: "Recommendation \<Rightarrow> Recommendation \<Rightarrow> bool" where
  "same_key r r' =
     (Recommendation.trend_id r = Recommendation.trend_id r' \<and>
      Recommendation.video_id r = Recommendation.video_id r')"

definition insertRecommendation :: "DB \<Rightarrow> Recommendation \<Rightarrow> DB" where
  "insertRecommendation d r =
     d\<lparr>recommendations := filter (\<lambda>r'. \<not> same_key r' r) (recommendations d) @ [r]\<rparr>"

definition clearRecommendations :: "DB \<Rightarrow> DB" where
  "clearRecommendations d = d\<lparr>recommendations := []\<rparr>"

subsection \<open>Console output and progress events\<close>

text \<open>
  One constructor per \<open>console.log\<close> / \<open>console.error\<close> call of the modelled
  functions, carrying the values the line is formatted from.
\<close>

datatype console_line =
    LogDatabasePath
  | LogStarting
  | LogNoTrends
  | LogNoVideos
  | LogProcessing nat nat
  | LogTrend string
  | LogFound nat
  | LogAccepted string
  | LogScores real real real
  | LogRejected string
  | LogBlank
  | LogSummary
  | LogTotalEvaluations nat
  | LogAcceptedTotal nat
  | LogRejectedTotal int
  | LogMatchingComplete
  | LogEvaluationFailed js_error
  | LogYouTubeError jsstring
  | LogVectorSearchDebug
  | LogTotalVideos nat
  | LogTotalChunks nat
  | LogTrendQuery string
  | LogNoChunksError
  | LogNoChunksHint
  | LogCandidatesTotal nat
  | LogTopScores "real list"
  | LogReturning nat
  | LogJsonParseError jsstring
  | LogRawResponse jsstring
  | LogBraceCleanupOk
  | LogJsonRepairOk
  | LogAllRepairsFailed
  | LogOpenAIError js_error
  | LogStatus js_error
  | LogJsonHint
  | LogKeyHint

text \<open>The objects the server handler passes to \<open>sendEvent\<close>, by their \<open>type\<close>.\<close>

datatype youtube_note = Fetching | FoundSuggestions nat | Unavailable | ApiFailed

datatype event =
    EvStart nat
  | EvTrend string
  | EvYoutube youtube_note
  | EvCandidates nat
  | EvAccepted string "real \<times> real \<times> real"
  | EvRejected string
  | EvComplete nat nat int "TrendRecommendations list"
  | EvError jsstring

subsection \<open>External collaborators\<close>

text \<open>
  What the program calls but does not define: the embedding and generation providers,
  the similarity function of \<open>embeddings.ts\<close>, the JSON parser, the \<open>jsonrepair\<close>
  package and the YouTube search. Each call that can throw returns the exception as
  \<open>Inl\<close>. \<open>chat_completion\<close> stands for building the prompt from the trend, the video
  and the excerpts, sending it, and reading \<open>choices[0].message.content\<close>;
  \<open>Inr None\<close> is a \<open>null\<close> content.
\<close>

record env =
  generateEmbedding :: "string \<Rightarrow> js_error + real list"
  cosineSimilarity :: "real list \<Rightarrow> real list \<Rightarrow> real"
  chat_completion :: "Trend \<Rightarrow> Video \<Rightarrow> string list \<Rightarrow> js_error + jsstring option"
  JSON_parse :: "jsstring \<Rightarrow> js_error + json"
  jsonrepair :: "jsstring \<Rightarrow> js_error + jsstring"
  getYouTubeTitleSuggestions :: "string \<Rightarrow> js_error + YouTubeVideoSuggestion list"

section \<open>Acceptance gate (matcher.ts, server handler)\<close>

definition TOP_CANDIDATES_PER_TREND :: nat where
  "TOP_CANDIDATES_PER_TREND = 3"

definition TOP_CHUNKS_FOR_LLM :: nat where
  "TOP_CHUNKS_FOR_LLM = 3"

definition MIN_SEMANTIC_RELEVANCE :: real where
  "MIN_SEMANTIC_RELEVANCE = 0.65"

definition MIN_INTRO_SUPPORT :: real where
  "MIN_INTRO_SUPPORT = 0.65"

definition MAX_HONESTY_RISK :: real where
  "MAX_HONESTY_RISK = 0.30"

text \<open>The expression bound to \<open>accepted\<close>, the same in the CLI and the server.\<close>

definition accepted :: "LLMEvaluation \<Rightarrow> bool" where
  "accepted evaluation =
     (allowed evaluation \<and>
      LLMEvaluation.semantic_relevance evaluation \<ge> MIN_SEMANTIC_RELEVANCE \<and>
      LLMEvaluation.intro_support evaluation \<ge> MIN_INTRO_SUPPORT \<and>
      LLMEvaluation.honesty_risk evaluation \<le> MAX_HONESTY_RISK)"

section \<open>Evaluation client\<close>

text \<open>\<open>response.choices[0].message.content || '{}'\<close>: a null or empty content is \<open>{}\<close>.\<close>

definition content_or_default :: "jsstring option \<Rightarrow> jsstring" where
  "content_or_default c =
     (case c of None \<Rightarrow> js ''{}'' | Some s \<Rightarrow> if s = [] then js ''{}'' else s)"

text \<open>\<open>typeof x === 'number'\<close> and \<open>typeof x === 'boolean'\<close> on a property read.\<close>

fun as_number :: "json option \<Rightarrow> real option" where
  "as_number (Some (JNum x)) = Some x"
| "as_number v = None"

fun as_boolean :: "json option \<Rightarrow> bool option" where
  "as_boolean (Some (JBool b)) = Some b"
| "as_boolean v = None"

text \<open>The message of V8's TypeError for a property read on \<open>null\<close>.\<close>

definition null_read_message :: jsstring where
  "null_read_message = js ''Cannot read properties of null''"

text \<open>
  The structure check after parsing, together with the cast to \<open>LLMEvaluation\<close>.
  On \<open>null\<close> the first property read throws a TypeError; on any other value a
  missing or ill-typed field throws \<open>Error('Invalid LLM response structure')\<close>.
\<close>

definition validate_structure :: "json \<Rightarrow> js_error + LLMEvaluation" where
  "validate_structure evaluation =
     (if evaluation = JNull then Inl (TypeError null_read_message)
      else
        (case (as_number (get_prop evaluation (js ''semantic_relevance'')),
               as_number (get_prop evaluation (js ''intro_support'')),
               as_number (get_prop evaluation (js ''honesty_risk'')),
               as_boolean (get_prop evaluation (js ''allowed''))) of
           (Some sr, Some isup, Some hr, Some a) \<Rightarrow>
             Inr \<lparr>LLMEvaluation.semantic_relevance = sr,
                  intro_support = isup,
                  honesty_risk = hr,
                  allowed = a,
                  titles = get_prop evaluation (js ''titles''),
                  thumbnails = get_prop evaluation (js ''thumbnails''),
                  notes = get_prop evaluation (js ''notes'')\<rparr>
         | _ \<Rightarrow> Inl (Error (js ''Invalid LLM response structure''))))"

text \<open>The conservative rejection both variants return, with its \<open>notes\<close> text.\<close>

definition rejection :: "jsstring \<Rightarrow> LLMEvaluation" where
  "rejection n =
     \<lparr>LLMEvaluation.semantic_relevance = 0,
      intro_support = 0,
      honesty_risk = 1,
      allowed = False,
      titles = Some (JArr []),
      thumbnails = Some (JArr []),
      notes = Some (JStr n)\<rparr>"

subsection \<open>CLI variant (matcher.ts)\<close>

text \<open>The body of the \<open>try\<close> block: one provider call, one parse, the structure check.\<close>

definition evaluateWithLLM_cli_try ::
  "env \<Rightarrow> Trend \<Rightarrow> Video \<Rightarrow> string list \<Rightarrow> js_error + LLMEvaluation" where
  "evaluateWithLLM_cli_try E tr vd excerpts =
     (case chat_completion E tr vd excerpts of
        Inl error \<Rightarrow> Inl error
      | Inr c \<Rightarrow>
          (case JSON_parse E (content_or_default c) of
             Inl error \<Rightarrow> Inl error
           | Inr evaluation \<Rightarrow> validate_structure evaluation))"

text \<open>The whole function: the \<open>catch\<close> logs the error and returns the rejection.\<close>

definition evaluateWithLLM_cli ::
  "env \<Rightarrow> Trend \<Rightarrow> Video \<Rightarrow> string list \<Rightarrow> LLMEvaluation \<times> console_line list" where
  "evaluateWithLLM_cli E tr vd excerpts =
     (case evaluateWithLLM_cli_try E tr vd excerpts of
        Inr evaluation \<Rightarrow> (evaluation, [])
      | Inl error \<Rightarrow> (rejection (js ''Evaluation failed''), [LogEvaluationFailed error]))"

subsection \<open>Server variant (the handler file that imports jsonrepair)\<close>

text \<open>
  The brace cleanup: drop what precedes the first \<open>{\<close> when it is not at the start,
  then drop what follows the last \<open>}\<close> of the result when it is not at the end.
\<close>

definition brace_cleanup :: "jsstring \<Rightarrow> jsstring" where
  "brace_cleanup content =
     (let firstBrace = indexOf content (of_char (CHR ''{''));
          fixedContent = (if firstBrace > 0 then drop (nat firstBrace) content else content);
          lastBrace = lastIndexOf fixedContent (of_char (CHR ''}''))
      in if lastBrace > 0 \<and> lastBrace < int (length fixedContent) - 1
         then substring fixedContent 0 (nat (lastBrace + 1))
         else fixedContent)"

text \<open>
  The nested \<open>try\<close> blocks around the three parse attempts. The result is the parsed
  value, or the first attempt's error when all three fail, with the lines written to
  the console on the way.
\<close>

definition parse_with_repair ::
  "env \<Rightarrow> jsstring \<Rightarrow> (js_error + json) \<times> console_line list" where
  "parse_with_repair E content =
     (case JSON_parse E content of
        Inr evaluation \<Rightarrow> (Inr evaluation, [])
      | Inl parseError \<Rightarrow>
          (let out = [LogJsonParseError (message parseError),
                      LogRawResponse (substring content 0 500)]
           in case JSON_parse E (brace_cleanup content) of
                Inr evaluation \<Rightarrow> (Inr evaluation, out @ [LogBraceCleanupOk])
              | Inl secondError \<Rightarrow>
                  (case jsonrepair E content of
                     Inl thirdError \<Rightarrow> (Inl parseError, out @ [LogAllRepairsFailed])
                   | Inr fixedContent \<Rightarrow>
                       (case JSON_parse E fixedContent of
                          Inl thirdError \<Rightarrow> (Inl parseError, out @ [LogAllRepairsFailed])
                        | Inr evaluation \<Rightarrow> (Inr evaluation, out @ [LogJsonRepairOk])))))"

text \<open>The outer \<open>catch\<close>: three console lines and the rejection.\<close>

definition api_error_lines :: "js_error \<Rightarrow> console_line list" where
  "api_error_lines error =
     [LogOpenAIError error, LogStatus error,
      if message error \<noteq> [] \<and> str_includes (message error) (js ''JSON'')
      then LogJsonHint else LogKeyHint]"

definition failed_evaluation :: "js_error \<Rightarrow> LLMEvaluation" where
  "failed_evaluation error =
     rejection (js ''Evaluation failed: '' @
       (if message error = [] then js ''OpenAI API error'' else message error))"

definition evaluateWithLLM_server ::
  "env \<Rightarrow> Trend \<Rightarrow> Video \<Rightarrow> string list \<Rightarrow> LLMEvaluation \<times> console_line list" where
  "evaluateWithLLM_server E tr vd excerpts =
     (case chat_completion E tr vd excerpts of
        Inl error \<Rightarrow> (failed_evaluation error, api_error_lines error)
      | Inr c \<Rightarrow>
          (case parse_with_repair E (content_or_default c) of
             (Inl parseError, out) \<Rightarrow>
               (rejection (js ''JSON parse failed: '' @ message parseError), out)
           | (Inr evaluation, out) \<Rightarrow>
               (case validate_structure evaluation of
                  Inl error \<Rightarrow> (failed_evaluation error, out @ api_error_lines error)
                | Inr checked \<Rightarrow> (checked, out))))"

section \<open>Theme enrichment\<close>

text \<open>\<open>extractBroaderThemes\<close> of matcher.ts: four keyword clusters.\<close>

definition extractBroaderThemes_cli :: "Trend \<Rightarrow> string" where
  "extractBroaderThemes_cli tr =
     (let combined = toLowerCase (Trend.title tr) @ '' '' @ toLowerCase (summary tr);
          themes =
            (if str_includes combined ''ai'' \<or> str_includes combined ''artificial intelligence'' \<or>
                str_includes combined ''chatgpt'' \<or> str_includes combined ''machine learning''
             then [''artificial intelligence, AI technology, automation, tech innovation'']
             else []) @
            (if str_includes combined ''budget'' \<or> str_includes combined ''tax'' \<or>
                str_includes combined ''income tax'' \<or> str_includes combined ''fiscal''
             then [''taxation, financial planning, income tax, savings, money management'']
             else []) @
            (if str_includes combined ''job'' \<or> str_includes combined ''layoff'' \<or>
                str_includes combined ''career'' \<or> str_includes combined ''employment''
             then [''careers, employment, job market, professional growth'']
             else []) @
            (if str_includes combined ''stock'' \<or> str_includes combined ''market'' \<or>
                str_includes combined ''investment'' \<or> str_includes combined ''trading''
             then [''investing, stock market, wealth building, financial markets'']
             else [])
      in if length themes > 0
         then summary tr @ ''. Related themes: '' @ join themes '', ''
         else summary tr)"

text \<open>\<open>extractBroaderThemes\<close> of the server: longer phrases and a fifth cluster.\<close>

definition extractBroaderThemes_server :: "Trend \<Rightarrow> string" where
  "extractBroaderThemes_server tr =
     (let combined = toLowerCase (Trend.title tr) @ '' '' @ toLowerCase (summary tr);
          themes =
            (if str_includes combined ''ai'' \<or> str_includes combined ''artificial intelligence'' \<or>
                str_includes combined ''chatgpt'' \<or> str_includes combined ''machine learning''
             then [''artificial intelligence, AI technology, automation, tech innovation, digital transformation'']
             else []) @
            (if str_includes combined ''budget'' \<or> str_includes combined ''tax'' \<or>
                str_includes combined ''income tax'' \<or> str_includes combined ''fiscal''
             then [''taxation, financial planning, income tax, savings, money management, personal finance'']
             else []) @
            (if str_includes combined ''job'' \<or> str_includes combined ''layoff'' \<or>
                str_includes combined ''career'' \<or> str_includes combined ''employment''
             then [''careers, employment, job market, professional growth, work opportunities'']
             else []) @
            (if str_includes combined ''stock'' \<or> str_includes combined ''market'' \<or>
                str_includes combined ''investment'' \<or> str_includes combined ''trading''
             then [''investing, stock market, wealth building, financial markets, trading'']
             else []) @
            (if str_includes combined ''real estate'' \<or> str_includes combined ''property'' \<or>
                str_includes combined ''housing'' \<or> str_includes combined ''home''
             then [''real estate, property investment, housing market, home ownership'']
             else [])
      in if length themes > 0
         then summary tr @ ''. Related themes: '' @ join themes '', ''
         else summary tr)"

section \<open>Candidate retriever (getCandidateVideos)\<close>

text \<open>An element of \<open>chunkScores\<close>.\<close>

record ChunkScore =
  video_id :: string
  chunk_text :: string
  similarity :: real

text \<open>
  A value of the \<open>videoScores\<close> map; a chunk entry \<open>{text, score}\<close> is a pair. The
  map itself is an association list in insertion order, which is the order in which
  \<open>Map.prototype.entries\<close> iterates.
\<close>

record VideoData =
  scores :: "real list"
  chunks :: "(string \<times> real) list"

text \<open>The first loop: one similarity per stored chunk.\<close>

definition score_chunks :: "env \<Rightarrow> real list \<Rightarrow> VideoChunk list \<Rightarrow> ChunkScore list" where
  "score_chunks E trendEmbedding allChunks =
     map (\<lambda>chunk.
            \<lparr>ChunkScore.video_id = VideoChunk.video_id chunk,
             chunk_text = VideoChunk.chunk_text chunk,
             similarity = cosineSimilarity E trendEmbedding (embedding chunk)\<rparr>)
         allChunks"

text \<open>One iteration of the second loop: create the group if needed, then push.\<close>

definition add_score :: "(string \<times> VideoData) list \<Rightarrow> ChunkScore \<Rightarrow> (string \<times> VideoData) list" where
  "add_score videoScores score =
     (let k = ChunkScore.video_id score;
          present = (if map_of videoScores k = None
                     then videoScores @ [(k, \<lparr>VideoData.scores = [], chunks = []\<rparr>)]
                     else videoScores)
      in map (\<lambda>(k', videoData).
                if k' = k
                then (k', \<lparr>VideoData.scores = VideoData.scores videoData @ [similarity score],
                           chunks = chunks videoData @
                                      [(ChunkScore.chunk_text score, similarity score)]\<rparr>)
                else (k', videoData))
             present)"

definition group_by_video :: "ChunkScore list \<Rightarrow> (string \<times> VideoData) list" where
  "group_by_video chunkScores = foldl add_score [] chunkScores"

text \<open>
  \<open>xs.sort((a, b) => f(b) - f(a))\<close>: \<open>Array.prototype.sort\<close> is stable, so this is
  the stable sort by descending \<open>f\<close>.
\<close>

definition sort_desc :: "('a \<Rightarrow> real) \<Rightarrow> 'a list \<Rightarrow> 'a list" where
  "sort_desc f xs = sort_key (\<lambda>x. - f x) xs"

text \<open>
  The body of the third loop for one map entry: \<open>None\<close> is the \<open>continue\<close> taken
  when no video has the entry's id.
\<close>

definition build_candidate :: "Video list \<Rightarrow> string \<times> VideoData \<Rightarrow> CandidateVideo option" where
  "build_candidate allVideos entry =
     (case find (\<lambda>v. Video.video_id v = fst entry) allVideos of
        None \<Rightarrow> None
      | Some v \<Rightarrow>
          Some \<lparr>video = v,
                avgSimilarity =
                  foldl (+) 0 (VideoData.scores (snd entry)) /
                    real (length (VideoData.scores (snd entry))),
                topChunks = map fst (take 5 (sort_desc snd (chunks (snd entry))))\<rparr>)"

definition all_candidates :: "env \<Rightarrow> real list \<Rightarrow> VideoChunk list \<Rightarrow> Video list \<Rightarrow> CandidateVideo list" where
  "all_candidates E trendEmbedding allChunks allVideos =
     sort_desc avgSimilarity
       (List.map_filter (build_candidate allVideos)
          (group_by_video (score_chunks E trendEmbedding allChunks)))"

text \<open>
  The CLI's function. A failure of the embedding call leaves the function at once:
  there is no \<open>try\<close> around it.
\<close>

definition getCandidateVideos_cli ::
  "env \<Rightarrow> DB \<Rightarrow> Trend \<Rightarrow> Video list \<Rightarrow> js_error + CandidateVideo list" where
  "getCandidateVideos_cli E d tr allVideos =
     (case generateEmbedding E (extractBroaderThemes_cli tr) of
        Inl error \<Rightarrow> Inl error
      | Inr trendEmbedding \<Rightarrow>
          Inr (take TOP_CANDIDATES_PER_TREND
                 (all_candidates E trendEmbedding (getAllChunks d) allVideos)))"

text \<open>
  The server's function: the same computation, with console lines and an early
  return on an empty chunk table.
\<close>

definition getCandidateVideos_server ::
  "env \<Rightarrow> DB \<Rightarrow> Trend \<Rightarrow> Video list \<Rightarrow>
     (js_error + CandidateVideo list) \<times> console_line list" where
  "getCandidateVideos_server E d tr allVideos =
     (case generateEmbedding E (extractBroaderThemes_server tr) of
        Inl error \<Rightarrow> (Inl error, [])
      | Inr trendEmbedding \<Rightarrow>
          (let allChunks = getAllChunks d;
               out = [LogVectorSearchDebug, LogTotalVideos (length allVideos),
                      LogTotalChunks (length allChunks),
                      LogTrendQuery (substring (Trend.title tr) 0 80)]
           in if length allChunks = 0
              then (Inr [], out @ [LogNoChunksError, LogNoChunksHint])
              else
                (let candidates = all_candidates E trendEmbedding allChunks allVideos;
                     topCandidates = take TOP_CANDIDATES_PER_TREND candidates
                 in (Inr topCandidates,
                     out @ [LogCandidatesTotal (length candidates)] @
                     (if length candidates > 0
                      then [LogTopScores (map avgSimilarity (take 3 candidates))]
                      else []) @
                     [LogReturning (length topCandidates)]))))"

section \<open>Match orchestrator\<close>

text \<open>
  The state a run threads through its loops: the database, the two counters and the
  console. \<open>requests\<close> is a ghost field: the arguments of every call of
  \<open>evaluateWithLLM\<close>, in call order.
\<close>

record run_state =
  db :: DB
  totalEvaluations :: nat
  acceptedCount :: nat
  console :: "console_line list"
  requests :: "(Trend \<times> Video \<times> string list) list"

text \<open>The server handler also writes events and collects \<open>trendResults\<close>.\<close>

record server_state = run_state +
  events :: "event list"
  trendResults :: "TrendRecommendations list"

text \<open>The \<open>recommendation\<close> object built for an accepted pair.\<close>

definition make_recommendation :: "Trend \<Rightarrow> CandidateVideo \<Rightarrow> LLMEvaluation \<Rightarrow> Recommendation" where
  "make_recommendation tr candidate evaluation =
     \<lparr>Recommendation.trend_id = Trend.trend_id tr,
      video_id = Video.video_id (video candidate),
      semantic_relevance = LLMEvaluation.semantic_relevance evaluation,
      intro_support = LLMEvaluation.intro_support evaluation,
      honesty_risk = LLMEvaluation.honesty_risk evaluation,
      titles = LLMEvaluation.titles evaluation,
      thumbnails = LLMEvaluation.thumbnails evaluation,
      notes = LLMEvaluation.notes evaluation\<rparr>"

subsection \<open>CLI: matchTrendsToVideos (matcher.ts)\<close>

text \<open>The body of the inner loop, for one candidate.\<close>

definition evaluate_candidate_cli :: "env \<Rightarrow> Trend \<Rightarrow> run_state \<Rightarrow> CandidateVideo \<Rightarrow> run_state" where
  "evaluate_candidate_cli E tr st candidate =
     (let excerpts = take TOP_CHUNKS_FOR_LLM (topChunks candidate);
          (evaluation, out) = evaluateWithLLM_cli E tr (video candidate) excerpts;
          st1 = st\<lparr>totalEvaluations := totalEvaluations st + 1,
                   requests := requests st @ [(tr, video candidate, excerpts)],
                   console := console st @ out\<rparr>
      in if accepted evaluation
         then st1\<lparr>acceptedCount := acceptedCount st1 + 1,
                  db := insertRecommendation (db st1)
                          (make_recommendation tr candidate evaluation),
                  console := console st1 @
                    [LogAccepted (title_current (video candidate)),
                     LogScores (LLMEvaluation.semantic_relevance evaluation)
                       (LLMEvaluation.intro_support evaluation)
                       (LLMEvaluation.honesty_risk evaluation)]\<rparr>
         else st1\<lparr>console := console st1 @ [LogRejected (title_current (video candidate))]\<rparr>)"

text \<open>
  The body of the outer loop, for one trend. \<open>Some error\<close> is the exception of the
  embedding call, which nothing in \<open>matchTrendsToVideos\<close> catches.
\<close>

definition process_trend_cli ::
  "env \<Rightarrow> Video list \<Rightarrow> run_state \<Rightarrow> Trend \<Rightarrow> run_state \<times> js_error option" where
  "process_trend_cli E allVideos st tr =
     (let st1 = st\<lparr>console := console st @ [LogTrend (Trend.title tr)]\<rparr>
      in case getCandidateVideos_cli E (db st1) tr allVideos of
           Inl error \<Rightarrow> (st1, Some error)
         | Inr candidates \<Rightarrow>
             (let st2 = st1\<lparr>console := console st1 @ [LogFound (length candidates)]\<rparr>;
                  st3 = foldl (evaluate_candidate_cli E tr) st2 candidates
              in (st3\<lparr>console := console st3 @ [LogBlank]\<rparr>, None)))"

fun trends_loop_cli ::
  "env \<Rightarrow> Video list \<Rightarrow> run_state \<Rightarrow> Trend list \<Rightarrow> run_state \<times> js_error option" where
  "trends_loop_cli E allVideos st [] = (st, None)"
| "trends_loop_cli E allVideos st (tr # rest) =
     (case process_trend_cli E allVideos st tr of
        (st', Some error) \<Rightarrow> (st', Some error)
      | (st', None) \<Rightarrow> trends_loop_cli E allVideos st' rest)"

text \<open>
  The whole function, from a database. The result is the final state and the
  exception the returned promise rejects with, if any.
\<close>

definition matchTrendsToVideos :: "env \<Rightarrow> DB \<Rightarrow> run_state \<times> js_error option" where
  "matchTrendsToVideos E d =
     (let st0 = \<lparr>db = d, totalEvaluations = 0, acceptedCount = 0,
                 console = [LogStarting, LogDatabasePath], requests = []\<rparr>;
          all_trends = getAllTrends d;
          allVideos = getAllVideos d
      in if length all_trends = 0
         then (st0\<lparr>console := console st0 @ [LogNoTrends]\<rparr>, None)
         else if length allVideos = 0
         then (st0\<lparr>console := console st0 @ [LogNoVideos]\<rparr>, None)
         else
           (let st1 = st0\<lparr>console := console st0 @
                             [LogProcessing (length all_trends) (length allVideos)],
                           db := clearRecommendations (db st0)\<rparr>
            in case trends_loop_cli E allVideos st1 all_trends of
                 (st2, Some error) \<Rightarrow> (st2, Some error)
               | (st2, None) \<Rightarrow>
                   (st2\<lparr>console := console st2 @
                          [LogSummary,
                           LogTotalEvaluations (totalEvaluations st2),
                           LogAcceptedTotal (acceptedCount st2),
                           LogRejectedTotal
                             (int (totalEvaluations st2) - int (acceptedCount st2)),
                           LogMatchingComplete]\<rparr>,
                    None)))"

subsection \<open>Server: the /api/match-selected handler\<close>

text \<open>
  The body of the inner loop. The second component is the local array
  \<open>matchedVideos\<close> of the trend being processed.
\<close>

definition evaluate_candidate_server ::
  "env \<Rightarrow> Trend \<Rightarrow> server_state \<times> MatchedVideo list \<Rightarrow> CandidateVideo \<Rightarrow>
     server_state \<times> MatchedVideo list" where
  "evaluate_candidate_server E tr acc candidate =
     (let st = fst acc;
          matched = snd acc;
          excerpts = take TOP_CHUNKS_FOR_LLM (topChunks candidate);
          (evaluation, out) = evaluateWithLLM_server E tr (video candidate) excerpts;
          st1 = st\<lparr>totalEvaluations := totalEvaluations st + 1,
                   requests := requests st @ [(tr, video candidate, excerpts)],
                   console := console st @ out\<rparr>;
          result_scores = (LLMEvaluation.semantic_relevance evaluation,
                           LLMEvaluation.intro_support evaluation,
                           LLMEvaluation.honesty_risk evaluation)
      in if accepted evaluation
         then (st1\<lparr>acceptedCount := acceptedCount st1 + 1,
                   db := insertRecommendation (db st1)
                           (make_recommendation tr candidate evaluation),
                   events := events st1 @
                     [EvAccepted (title_current (video candidate)) result_scores]\<rparr>,
               matched @
                 [\<lparr>MatchedVideo.trend = Trend.title tr,
                   video = title_current (video candidate),
                   video_intro = transcript_intro (video candidate),
                   scores = result_scores,
                   packaging = (LLMEvaluation.titles evaluation,
                                LLMEvaluation.thumbnails evaluation,
                                LLMEvaluation.notes evaluation)\<rparr>])
         else (st1\<lparr>events := events st1 @ [EvRejected (title_current (video candidate))]\<rparr>,
               matched))"

text \<open>
  The body of the outer loop, for one requested identifier. \<open>(st, None)\<close> in the
  first case is the \<open>continue\<close> taken when \<open>getTrend\<close> finds no row.
\<close>

definition process_trend_server ::
  "env \<Rightarrow> Video list \<Rightarrow> server_state \<Rightarrow> string \<Rightarrow> server_state \<times> js_error option" where
  "process_trend_server E allVideos st trendId =
     (case getTrend (db st) trendId of
        None \<Rightarrow> (st, None)
      | Some tr \<Rightarrow>
          (let st1 = st\<lparr>events := events st @ [EvTrend (Trend.title tr), EvYoutube Fetching]\<rparr>;
               suggestions =
                 (case getYouTubeTitleSuggestions E (Trend.title tr) of
                    Inr found \<Rightarrow> found | Inl error \<Rightarrow> []);
               st2 =
                 (case getYouTubeTitleSuggestions E (Trend.title tr) of
                    Inr found \<Rightarrow>
                      st1\<lparr>events := events st1 @
                            [EvYoutube (if length found > 0
                                        then FoundSuggestions (length found)
                                        else Unavailable)]\<rparr>
                  | Inl error \<Rightarrow>
                      st1\<lparr>console := console st1 @ [LogYouTubeError (message error)],
                          events := events st1 @ [EvYoutube ApiFailed]\<rparr>)
           in case getCandidateVideos_server E (db st2) tr allVideos of
                (Inl error, out) \<Rightarrow> (st2\<lparr>console := console st2 @ out\<rparr>, Some error)
              | (Inr candidates, out) \<Rightarrow>
                  (let st3 = st2\<lparr>console := console st2 @ out,
                                  events := events st2 @ [EvCandidates (length candidates)]\<rparr>;
                       done = foldl (evaluate_candidate_server E tr) (st3, []) candidates;
                       st4 = fst done
                   in (st4\<lparr>trendResults := trendResults st4 @
                              [\<lparr>TrendRecommendations.trend = tr,
                                youtubeSuggestions = suggestions,
                                matchedVideos = snd done\<rparr>]\<rparr>,
                       None))))"

fun trends_loop_server ::
  "env \<Rightarrow> Video list \<Rightarrow> server_state \<Rightarrow> string list \<Rightarrow> server_state \<times> js_error option" where
  "trends_loop_server E allVideos st [] = (st, None)"
| "trends_loop_server E allVideos st (trendId # rest) =
     (case process_trend_server E allVideos st trendId of
        (st', Some error) \<Rightarrow> (st', Some error)
      | (st', None) \<Rightarrow> trends_loop_server E allVideos st' rest)"

text \<open>
  The handler, from a database and the \<open>trendIds\<close> of the request body (\<open>None\<close>
  when the body has none). It answers 400 before touching anything when no trend is
  selected; otherwise it streams events, and its own \<open>catch\<close> turns an exception of
  the loop into an \<open>error\<close> event.
\<close>

datatype reply = BadRequest | EventStream

definition match_selected ::
  "env \<Rightarrow> DB \<Rightarrow> string list option \<Rightarrow> server_state \<times> reply" where
  "match_selected E d body =
     (let untouched = \<lparr>db = d, totalEvaluations = 0, acceptedCount = 0, console = [],
                       requests = [], events = [], trendResults = []\<rparr>
      in case body of
           None \<Rightarrow> (untouched, BadRequest)
         | Some trendIds \<Rightarrow>
             if length trendIds = 0 then (untouched, BadRequest)
             else
               (let allVideos = getAllVideos d;
                    st1 = untouched\<lparr>console := [LogDatabasePath],
                                    db := clearRecommendations d,
                                    events := [EvStart (length trendIds)]\<rparr>
                in case trends_loop_server E allVideos st1 trendIds of
                     (st2, Some error) \<Rightarrow>
                       (st2\<lparr>events := events st2 @ [EvError (message error)]\<rparr>, EventStream)
                   | (st2, None) \<Rightarrow>
                       (st2\<lparr>events := events st2 @
                              [EvComplete (totalEvaluations st2) (acceptedCount st2)
                                 (int (totalEvaluations st2) - int (acceptedCount st2))
                                 (trendResults st2)]\<rparr>,
                        EventStream)))"

section \<open>Similarity index\<close>

text \<open>
  Modelled from the spec: \<open>cosineSimilarity\<close> of src/embeddings.ts, a module that is
  not among the sources (only its call sites in \<open>getCandidateVideos\<close> are). The
  spec gives it as the dot product divided by the product of the magnitudes, and 0
  when either magnitude is zero. Vectors are lists of real numbers.
\<close>

definition dot :: "real list \<Rightarrow> real list \<Rightarrow> real" where
  "dot a b = sum_list (map2 (*) a b)"

definition magnitude :: "real list \<Rightarrow> real" where
  "magnitude a = sqrt (dot a a)"

definition cosineSimilarity_spec :: "real list \<Rightarrow> real list \<Rightarrow> real" where
  "cosineSimilarity_spec a b =
     (if magnitude a = 0 \<or> magnitude b = 0 then 0
      else dot a b / (magnitude a * magnitude b))"

section \<open>Notions used to state the properties\<close>

text \<open>The primary key of a recommendation row, and the pair a request is about.\<close>

definition rec_key :: "Recommendation \<Rightarrow> string \<times> string" where
  "rec_key r = (Recommendation.trend_id r, Recommendation.video_id r)"

definition request_key :: "Trend \<times> Video \<times> string list \<Rightarrow> string \<times> string" where
  "request_key q = (Trend.trend_id (fst q), Video.video_id (fst (snd q)))"

text \<open>The request the orchestrator issues for a candidate of a trend.\<close>

definition request_of :: "Trend \<Rightarrow> CandidateVideo \<Rightarrow> Trend \<times> Video \<times> string list" where
  "request_of tr candidate = (tr, video candidate, take TOP_CHUNKS_FOR_LLM (topChunks candidate))"

text \<open>The evaluation a request gets, and whether the gate accepts it.\<close>

definition evaluation_cli :: "env \<Rightarrow> Trend \<times> Video \<times> string list \<Rightarrow> LLMEvaluation" where
  "evaluation_cli E q = fst (evaluateWithLLM_cli E (fst q) (fst (snd q)) (snd (snd q)))"

definition evaluation_server :: "env \<Rightarrow> Trend \<times> Video \<times> string list \<Rightarrow> LLMEvaluation" where
  "evaluation_server E q = fst (evaluateWithLLM_server E (fst q) (fst (snd q)) (snd (snd q)))"

text \<open>
  The bookkeeping of a run, relative to the evaluations of the requests it has issued
  so far: the counters count the requests and the accepted ones, the table holds
  exactly the keys of the accepted requests, without a repeated key, and the corpus
  tables are those of the database \<open>d\<close> the run started from.
\<close>

definition ledger_ok ::
  "(Trend \<times> Video \<times> string list \<Rightarrow> LLMEvaluation) \<Rightarrow> DB \<Rightarrow> 'a run_state_scheme \<Rightarrow> bool" where
  "ledger_ok ev d st \<longleftrightarrow>
     totalEvaluations st = length (requests st) \<and>
     acceptedCount st = length (filter (\<lambda>q. accepted (ev q)) (requests st)) \<and>
     rec_key ` set (recommendations (db st)) =
       request_key ` set (filter (\<lambda>q. accepted (ev q)) (requests st)) \<and>
     distinct (map rec_key (recommendations (db st))) \<and>
     videos (db st) = videos d \<and>
     video_chunks (db st) = video_chunks d \<and>
     trends (db st) = trends d"

text \<open>
  The state in which each orchestrator enters its loop over the trends: the table
  cleared, the counters at zero, no request issued yet.
\<close>

definition cli_start :: "DB \<Rightarrow> run_state" where
  "cli_start d =
     \<lparr>db = clearRecommendations d, totalEvaluations = 0, acceptedCount = 0,
      console = [LogStarting, LogDatabasePath,
                 LogProcessing (length (getAllTrends d)) (length (getAllVideos d))],
      requests = []\<rparr>"

definition server_start :: "DB \<Rightarrow> string list \<Rightarrow> server_state" where
  "server_start d trendIds =
     \<lparr>db = clearRecommendations d, totalEvaluations = 0, acceptedCount = 0,
      console = [LogDatabasePath], requests = [],
      events = [EvStart (length trendIds)], trendResults = []\<rparr>"

text \<open>The five console lines of the CLI's summary, and the server's last event.\<close>

definition summary_lines :: "'a run_state_scheme \<Rightarrow> console_line list" where
  "summary_lines st =
     [LogSummary,
      LogTotalEvaluations (totalEvaluations st),
      LogAcceptedTotal (acceptedCount st),
      LogRejectedTotal (int (totalEvaluations st) - int (acceptedCount st)),
      LogMatchingComplete]"

definition complete_event :: "server_state \<Rightarrow> event" where
  "complete_event st =
     EvComplete (totalEvaluations st) (acceptedCount st)
       (int (totalEvaluations st) - int (acceptedCount st)) (trendResults st)"

text \<open>
  The foreign keys of the \<open>recommendations\<close> table: every row names a trend of the
  \<open>trends\<close> table and a video of the \<open>videos\<close> table.
\<close>

definition references_ok :: "DB \<Rightarrow> bool" where
  "references_ok d \<longleftrightarrow>
     (\<forall>r \<in> set (recommendations d).
        (\<exists>t \<in> set (trends d). Trend.trend_id t = Recommendation.trend_id r) \<and>
        (\<exists>v \<in> set (videos d). Video.video_id v = Recommendation.video_id r))"

text \<open>
  Grouping, as the design describes it: the video identifiers in the order in which
  they are first seen, each with the similarities and the \<open>(text, score)\<close> entries
  of its own chunks, in chunk order.
\<close>

definition first_seen :: "'a list \<Rightarrow> 'a list" where
  "first_seen xs = rev (remdups (rev xs))"

definition group_of :: "ChunkScore list \<Rightarrow> string \<Rightarrow> VideoData" where
  "group_of chunkScores k =
     \<lparr>VideoData.scores =
        map similarity (filter (\<lambda>s. ChunkScore.video_id s = k) chunkScores),
      chunks =
        map (\<lambda>s. (ChunkScore.chunk_text s, similarity s))
          (filter (\<lambda>s. ChunkScore.video_id s = k) chunkScores)\<rparr>"

definition groups_of :: "ChunkScore list \<Rightarrow> (string \<times> VideoData) list" where
  "groups_of chunkScores =
     map (\<lambda>k. (k, group_of chunkScores k)) (first_seen (map ChunkScore.video_id chunkScores))"

text \<open>The chunks of a video among the stored chunks, and the arithmetic mean.\<close>

definition own_chunks :: "VideoChunk list \<Rightarrow> Video \<Rightarrow> VideoChunk list" where
  "own_chunks allChunks v =
     filter (\<lambda>chunk. VideoChunk.video_id chunk = Video.video_id v) allChunks"

definition mean :: "real list \<Rightarrow> real" where
  "mean xs = sum_list xs / real (length xs)"

text \<open>Every request issued so far is about a trend and a video of the database.\<close>

definition requests_within :: "DB \<Rightarrow> 'a run_state_scheme \<Rightarrow> bool" where
  "requests_within d st \<longleftrightarrow>
     (\<forall>q \<in> set (requests st). fst q \<in> set (trends d) \<and> fst (snd q) \<in> set (videos d))"

section \<open>A small corpus to run the model on\<close>

text \<open>
  One trend, two videos and four stored chunks: two of the first video (similarities
  1 and 0.8 to the trend), one of the second (0.3) and one whose video is missing.
  The generation provider answers with an accepting evaluation for the first video
  and, for the second, with an evaluation whose \<open>allowed\<close> is false, wrapped in prose.
\<close>

definition trend1 :: Trend where
  "trend1 = \<lparr>Trend.trend_id = ''t1'', title = ''AI layoffs'', summary = ''Tech jobs'',
              keywords = ''layoffs'', source = ''google_news'', created_at = ''2024-01-01''\<rparr>"

definition video1 :: Video where
  "video1 = \<lparr>Video.video_id = ''v1'', title_current = ''Is an MBA worth it'',
              transcript_full = ''full one'', transcript_intro = ''intro one'',
              published_at = ''2023-01-01'', url = None\<rparr>"

definition video2 :: Video where
  "video2 = \<lparr>Video.video_id = ''v2'', title_current = ''Cooking rice'',
              transcript_full = ''full two'', transcript_intro = ''intro two'',
              published_at = ''2023-02-01'', url = None\<rparr>"

definition corpus :: DB where
  "corpus =
     \<lparr>videos = [video1, video2],
      video_chunks =
        [\<lparr>VideoChunk.video_id = ''v2'', chunk_id = 0, chunk_text = ''rice'', embedding = [0.3]\<rparr>,
         \<lparr>VideoChunk.video_id = ''v1'', chunk_id = 0, chunk_text = ''careers'', embedding = [0.8]\<rparr>,
         \<lparr>VideoChunk.video_id = ''gone'', chunk_id = 0, chunk_text = ''lost'', embedding = [1]\<rparr>,
         \<lparr>VideoChunk.video_id = ''v1'', chunk_id = 1, chunk_text = ''jobs'', embedding = [1]\<rparr>],
      trends = [trend1],
      recommendations = []\<rparr>"

definition good_answer :: jsstring where
  \<open>good_answer = js ''{"semantic_relevance":0.8,"intro_support":0.8,"honesty_risk":0.1,"allowed":true,"titles":["A"],"thumbnails":["B"],"notes":"ok"}''\<close>

definition wrapped_answer :: jsstring where
  \<open>wrapped_answer = js ''Sure: {"semantic_relevance":0.9,"intro_support":0.9,"honesty_risk":0.1,"allowed":false} Done.''\<close>

definition providers :: env where
  "providers =
     \<lparr>generateEmbedding = (\<lambda>query. Inr [1]),
      cosineSimilarity = (\<lambda>a b. sum_list (map2 (*) a b)),
      chat_completion = (\<lambda>tr vd excerpts.
        if Video.video_id vd = ''v1'' then Inr (Some good_answer) else Inr (Some wrapped_answer)),
      JSON_parse = JSON_parse_with (\<lambda>s. js ''Unexpected token''),
      jsonrepair = (\<lambda>s. Inl (Error (js ''Cannot repair''))),
      getYouTubeTitleSuggestions = (\<lambda>query. Inr [])\<rparr>"

text \<open>The two candidates the retriever returns for the trend, and a fresh state.\<close>

definition candidate1 :: CandidateVideo where
  "candidate1 = \<lparr>video = video1, avgSimilarity = 0.9, topChunks = [''jobs'', ''careers'']\<rparr>"

definition candidate2 :: CandidateVideo where
  "candidate2 = \<lparr>video = video2, avgSimilarity = 0.3, topChunks = [''rice'']\<rparr>"

definition fresh :: run_state where
  "fresh = \<lparr>db = corpus, totalEvaluations = 0, acceptedCount = 0, console = [], requests = []\<rparr>"

definition fresh_server :: server_state where
  "fresh_server = \<lparr>db = corpus, totalEvaluations = 0, acceptedCount = 0, console = [],
                    requests = [], events = [], trendResults = []\<rparr>"

text \<open>The values the two answers parse to.\<close>

definition good_value :: json where
  "good_value =
     JObj [(js ''semantic_relevance'', JNum 0.8), (js ''intro_support'', JNum 0.8),
           (js ''honesty_risk'', JNum 0.1), (js ''allowed'', JBool True),
           (js ''titles'', JArr [JStr (js ''A'')]), (js ''thumbnails'', JArr [JStr (js ''B'')]),
           (js ''notes'', JStr (js ''ok''))]"

definition inner_value :: json where
  "inner_value =
     JObj [(js ''semantic_relevance'', JNum 0.9), (js ''intro_support'', JNum 0.9),
           (js ''honesty_risk'', JNum 0.1), (js ''allowed'', JBool False)]"

text \<open>The row stored for the first video, and the evaluation it comes from.\<close>

definition good_evaluation :: LLMEvaluation where
  "good_evaluation =
     \<lparr>LLMEvaluation.semantic_relevance = 0.8, intro_support = 0.8, honesty_risk = 0.1,
      allowed = True, titles = Some (JArr [JStr (js ''A'')]),
      thumbnails = Some (JArr [JStr (js ''B'')]), notes = Some (JStr (js ''ok''))\<rparr>"

definition row1 :: Recommendation where
  "row1 = make_recommendation trend1 candidate1 good_evaluation"

text \<open>What the server collects for the trend.\<close>

definition result1 :: TrendRecommendations where
  "result1 =
     \<lparr>TrendRecommendations.trend = trend1,
      youtubeSuggestions = [],
      matchedVideos =
        [\<lparr>MatchedVideo.trend = Trend.title trend1,
          video = title_current video1,
          video_intro = transcript_intro video1,
          scores = (0.8, 0.8, 0.1),
          packaging = (Some (JArr [JStr (js ''A'')]), Some (JArr [JStr (js ''B'')]),
                       Some (JStr (js ''ok'')))\<rparr>]\<rparr>"

text \<open>The same providers with the generation call failing, or answering with no content.\<close>

definition providers_down :: env where
  "providers_down =
     providers\<lparr>chat_completion := (\<lambda>tr vd excerpts. Inl (APIError (js ''timeout'')))\<rparr>"

definition providers_silent :: env where
  "providers_silent = providers\<lparr>chat_completion := (\<lambda>tr vd excerpts. Inr None)\<rparr>"

text \<open>
  An answer cut off inside a string, and providers whose repair pass closes the
  string and the object.
\<close>

definition truncated_answer :: jsstring where
  \<open>truncated_answer = js ''{"semantic_relevance":0.7,"intro_support":0.7,"honesty_risk":0.2,"allowed":true,"notes":"cut''\<close>

definition repaired_value :: json where
  "repaired_value =
     JObj [(js ''semantic_relevance'', JNum 0.7), (js ''intro_support'', JNum 0.7),
           (js ''honesty_risk'', JNum 0.2), (js ''allowed'', JBool True),
           (js ''notes'', JStr (js ''cut''))]"

definition providers_repairing :: env where
  \<open>providers_repairing = providers\<lparr>jsonrepair := (\<lambda>s. Inr (s @ js ''"}''))\<rparr>\<close>



text \<open>The corpus before any ingestion: no chunk is stored.\<close>

definition bare_corpus :: DB where
  "bare_corpus = corpus\<lparr>video_chunks := []\<rparr>"

section \<open>Properties of the chunker\<close>

lemma substring_window:
  "a \<le> b \<Longrightarrow> substring s a b = take (b - a) (drop a s)"
  by (auto simp: substring_def Let_def min_def max_def)

lemma chunk_window:
  "start < length text \<Longrightarrow>
   substring text start (min (start + CHUNK_SIZE) (length text)) = take 1000 (drop start text)"
  by (simp add: substring_window CHUNK_SIZE_def min_def)

lemma chunk_count_step: "(850 * i < n) = (i < (n + 849) div 850)" for i n :: nat
  by arith

lemma chunkText_loop_closed:
  "chunkText_loop s (850 * i) acc =
     acc @ map (\<lambda>j. take 1000 (drop (850 * j) s)) [i ..< (length s + 849) div 850]"
proof (induction s "850 * i" acc arbitrary: i rule: chunkText_loop.induct)
  case (1 s acc)
  show ?case
  proof (cases "850 * i < length s")
    case True
    then have lt: "i < (length s + 849) div 850"
      by (simp add: chunk_count_step)
    have step: "850 * i + (CHUNK_SIZE - CHUNK_OVERLAP) = 850 * Suc i"
      by (simp add: CHUNK_SIZE_def CHUNK_OVERLAP_def)
    have "chunkText_loop s (850 * i) acc =
            chunkText_loop s (850 * i + (CHUNK_SIZE - CHUNK_OVERLAP))
              (acc @ [take 1000 (drop (850 * i) s)])"
      using True chunk_window [OF True]
      by (subst chunkText_loop.simps) (simp add: Let_def)
    also have "\<dots> = (acc @ [take 1000 (drop (850 * i) s)]) @
        map (\<lambda>j. take 1000 (drop (850 * j) s)) [Suc i ..< (length s + 849) div 850]"
      using "1.hyps" [OF True refl step] chunk_window [OF True]
      by (simp only: step)
    finally show ?thesis
      using lt by (simp add: upt_conv_Cons)
  next
    case False
    then have "\<not> i < (length s + 849) div 850"
      by (simp add: chunk_count_step)
    with False show ?thesis
      by (subst chunkText_loop.simps) simp
  qed
qed

lemma chunkText_closed:
  "chunkText text =
     map (\<lambda>j. take 1000 (drop (850 * j) text)) [0 ..< (length text + 849) div 850]"
  using chunkText_loop_closed [of "text" 0 "[]"] by (simp add: chunkText_def)

lemma length_chunkText: "length (chunkText text) = (length text + 849) div 850"
  by (simp add: chunkText_closed)

lemma nth_chunkText:
  "i < length (chunkText text) \<Longrightarrow> chunkText text ! i = take 1000 (drop (850 * i) text)"
  by (simp add: chunkText_closed)

lemma length_chunk:
  "i < length (chunkText text) \<Longrightarrow>
   length (chunkText text ! i) = min 1000 (length text - 850 * i)"
  by (simp add: nth_chunkText min.commute)

lemma chunk_nonempty:
  "i < length (chunkText text) \<Longrightarrow> 0 < length (chunkText text ! i)"
  by (simp add: length_chunk) (simp add: length_chunkText chunk_count_step [symmetric])

lemma chunk_full:
  assumes "i + 2 < length (chunkText text)"
  shows "length (chunkText text ! i) = 1000"
proof -
  from assms have "850 * (i + 2) < length text"
    by (simp add: length_chunkText chunk_count_step)
  with assms show ?thesis
    by (simp add: length_chunk)
qed

lemma chunk_before_last:
  assumes "i + 1 < length (chunkText text)"
  shows "850 < length (chunkText text ! i)"
proof -
  from assms have "850 * (i + 1) < length text"
    by (simp add: length_chunkText chunk_count_step)
  with assms show ?thesis
    by (simp add: length_chunk)
qed

lemma chunk_overlap:
  assumes "i + 1 < length (chunkText text)"
  shows "drop 850 (chunkText text ! i) =
         take (length (chunkText text ! i) - 850) (chunkText text ! (i + 1))"
proof -
  from assms have i: "i < length (chunkText text)"
    by simp
  have "drop 850 (chunkText text ! i) = take 150 (drop (850 * i + 850) text)"
    using i by (simp add: nth_chunkText drop_take add.commute)
  moreover have "take (length (chunkText text ! i) - 850) (chunkText text ! (i + 1)) =
      take (min 1000 (length text - 850 * i) - 850) (drop (850 * i + 850) text)"
    using assms i by (simp add: nth_chunkText length_chunk min_def add.commute)
  moreover have "take 150 (drop (850 * i + 850) text) =
      take (min 1000 (length text - 850 * i) - 850) (drop (850 * i + 850) text)"
    by (cases "1000 \<le> length text - 850 * i") (simp_all add: min_def)
  ultimately show ?thesis
    by simp
qed

lemma chunk_covers:
  assumes "j < length text"
  shows "j div 850 < length (chunkText text) \<and>
         j mod 850 < length (chunkText text ! (j div 850)) \<and>
         chunkText text ! (j div 850) ! (j mod 850) = text ! j"
proof -
  have le: "850 * (j div 850) \<le> j"
    by simp
  with assms have i: "j div 850 < length (chunkText text)"
    by (simp add: length_chunkText chunk_count_step [symmetric])
  have m: "j mod 850 < 1000"
    by (rule less_trans [of _ 850]) simp_all
  have split: "850 * (j div 850) + j mod 850 = j"
    by simp
  from assms have inside: "j mod 850 < length text - 850 * (j div 850)"
    by (simp add: less_diff_conv add.commute)
  have "chunkText text ! (j div 850) ! (j mod 850) = text ! j"
    using i m inside assms by (simp add: nth_chunkText split)
  with i m inside show ?thesis
    by (simp add: length_chunk)
qed

section \<open>Properties of the orchestrator\<close>

subsection \<open>The recommendations table\<close>

lemma same_key_rec_key: "same_key r r' = (rec_key r = rec_key r')"
  by (auto simp: same_key_def rec_key_def)

lemma insertRecommendation_rows:
  "recommendations (insertRecommendation d r) =
     filter (\<lambda>r'. rec_key r' \<noteq> rec_key r) (recommendations d) @ [r]"
  by (simp add: insertRecommendation_def same_key_rec_key)

lemma insertRecommendation_corpus:
  "videos (insertRecommendation d r) = videos d"
  "video_chunks (insertRecommendation d r) = video_chunks d"
  "trends (insertRecommendation d r) = trends d"
  by (simp_all add: insertRecommendation_def)

lemma insertRecommendation_keys:
  "rec_key ` set (recommendations (insertRecommendation d r)) =
     insert (rec_key r) (rec_key ` set (recommendations d))"
  by (auto simp: insertRecommendation_rows)

lemma insertRecommendation_distinct:
  "distinct (map rec_key (recommendations d)) \<Longrightarrow>
   distinct (map rec_key (recommendations (insertRecommendation d r)))"
  by (auto simp: insertRecommendation_rows distinct_map_filter)


lemma rec_key_make_recommendation:
  "rec_key (make_recommendation tr c e) = request_key (request_of tr c)"
  by (simp add: rec_key_def make_recommendation_def request_key_def request_of_def)

subsection \<open>One candidate\<close>

lemma evaluate_candidate_cli_total:
  "totalEvaluations (evaluate_candidate_cli E tr st c) = totalEvaluations st + 1"
  by (simp add: evaluate_candidate_cli_def Let_def split: prod.split)

lemma evaluate_candidate_cli_requests:
  "requests (evaluate_candidate_cli E tr st c) = requests st @ [request_of tr c]"
  by (simp add: evaluate_candidate_cli_def Let_def request_of_def split: prod.split)

lemma evaluate_candidate_cli_accepted:
  "acceptedCount (evaluate_candidate_cli E tr st c) =
     (if accepted (evaluation_cli E (request_of tr c))
      then acceptedCount st + 1 else acceptedCount st)"
  by (simp add: evaluate_candidate_cli_def Let_def evaluation_cli_def request_of_def
      split: prod.split)

lemma evaluate_candidate_cli_db:
  "db (evaluate_candidate_cli E tr st c) =
     (if accepted (evaluation_cli E (request_of tr c))
      then insertRecommendation (db st)
             (make_recommendation tr c (evaluation_cli E (request_of tr c)))
      else db st)"
  by (simp add: evaluate_candidate_cli_def Let_def evaluation_cli_def request_of_def
      split: prod.split)

lemma evaluate_candidate_server_total:
  "totalEvaluations (fst (evaluate_candidate_server E tr acc c)) = totalEvaluations (fst acc) + 1"
  by (simp add: evaluate_candidate_server_def Let_def split: prod.split)

lemma evaluate_candidate_server_requests:
  "requests (fst (evaluate_candidate_server E tr acc c)) = requests (fst acc) @ [request_of tr c]"
  by (simp add: evaluate_candidate_server_def Let_def request_of_def split: prod.split)

lemma evaluate_candidate_server_accepted:
  "acceptedCount (fst (evaluate_candidate_server E tr acc c)) =
     (if accepted (evaluation_server E (request_of tr c))
      then acceptedCount (fst acc) + 1 else acceptedCount (fst acc))"
  by (simp add: evaluate_candidate_server_def Let_def evaluation_server_def request_of_def
      split: prod.split)

lemma evaluate_candidate_server_db:
  "db (fst (evaluate_candidate_server E tr acc c)) =
     (if accepted (evaluation_server E (request_of tr c))
      then insertRecommendation (db (fst acc))
             (make_recommendation tr c (evaluation_server E (request_of tr c)))
      else db (fst acc))"
  by (simp add: evaluate_candidate_server_def Let_def evaluation_server_def request_of_def
      split: prod.split)

lemma ledger_step:
  assumes ok: "ledger_ok ev d st"
    and total: "totalEvaluations st' = totalEvaluations st + 1"
    and reqs: "requests st' = requests st @ [request_of tr c]"
    and acc: "acceptedCount st' =
      (if accepted (ev (request_of tr c)) then acceptedCount st + 1 else acceptedCount st)"
    and dbs: "db st' =
      (if accepted (ev (request_of tr c))
       then insertRecommendation (db st) (make_recommendation tr c (ev (request_of tr c)))
       else db st)"
  shows "ledger_ok ev d st'"
proof (cases "accepted (ev (request_of tr c))")
  case True
  with ok total reqs acc dbs show ?thesis
    by (simp add: ledger_ok_def insertRecommendation_keys insertRecommendation_distinct
        insertRecommendation_corpus rec_key_make_recommendation)
next
  case False
  with ok total reqs acc dbs show ?thesis
    by (simp add: ledger_ok_def)
qed

lemma ledger_candidate_cli:
  "ledger_ok (evaluation_cli E) d st \<Longrightarrow>
   ledger_ok (evaluation_cli E) d (evaluate_candidate_cli E tr st c)"
  by (erule ledger_step)
     (simp_all only: evaluate_candidate_cli_total evaluate_candidate_cli_requests
        evaluate_candidate_cli_accepted evaluate_candidate_cli_db)

lemma ledger_candidate_server:
  "ledger_ok (evaluation_server E) d (fst acc) \<Longrightarrow>
   ledger_ok (evaluation_server E) d (fst (evaluate_candidate_server E tr acc c))"
  by (erule ledger_step)
     (simp_all only: evaluate_candidate_server_total evaluate_candidate_server_requests
        evaluate_candidate_server_accepted evaluate_candidate_server_db)

subsection \<open>The candidates of one trend\<close>

lemma set_sort_desc: "set (sort_desc f xs) = set xs"
  by (simp add: sort_desc_def)

lemma length_sort_desc: "length (sort_desc f xs) = length xs"
  by (simp add: sort_desc_def)

lemma in_set_map_filter:
  "y \<in> set (List.map_filter f xs) \<longleftrightarrow> (\<exists>x \<in> set xs. f x = Some y)"
  by (induction xs) (auto split: option.splits)

lemma build_candidate_video:
  "build_candidate allVideos entry = Some c \<Longrightarrow>
   video c \<in> set allVideos \<and> Video.video_id (video c) = fst entry"
  by (auto simp: build_candidate_def find_Some_iff split: option.splits)

lemma all_candidates_video:
  "c \<in> set (all_candidates E emb allChunks allVideos) \<Longrightarrow> video c \<in> set allVideos"
  by (auto simp: all_candidates_def set_sort_desc in_set_map_filter dest: build_candidate_video)

lemma getCandidateVideos_cli_video:
  "getCandidateVideos_cli E d tr allVideos = Inr cs \<Longrightarrow> c \<in> set cs \<Longrightarrow>
   video c \<in> set allVideos"
  by (auto simp: getCandidateVideos_cli_def split: sum.splits
      dest!: in_set_takeD all_candidates_video)

lemma getCandidateVideos_server_video:
  "fst (getCandidateVideos_server E d tr allVideos) = Inr cs \<Longrightarrow> c \<in> set cs \<Longrightarrow>
   video c \<in> set allVideos"
  by (auto simp: getCandidateVideos_server_def Let_def split: sum.splits if_splits
      dest!: in_set_takeD all_candidates_video)

lemma foldl_candidates_cli_requests:
  "requests (foldl (evaluate_candidate_cli E tr) st cs) = requests st @ map (request_of tr) cs"
  by (induction cs arbitrary: st) (simp_all add: evaluate_candidate_cli_requests)

lemma foldl_candidates_cli_total:
  "totalEvaluations (foldl (evaluate_candidate_cli E tr) st cs) = totalEvaluations st + length cs"
  by (induction cs arbitrary: st) (simp_all add: evaluate_candidate_cli_total)

lemma foldl_candidates_cli_ledger:
  "ledger_ok (evaluation_cli E) d st \<Longrightarrow>
   ledger_ok (evaluation_cli E) d (foldl (evaluate_candidate_cli E tr) st cs)"
  by (induction cs arbitrary: st) (simp_all add: ledger_candidate_cli)

lemma foldl_candidates_server_requests:
  "requests (fst (foldl (evaluate_candidate_server E tr) acc cs)) =
     requests (fst acc) @ map (request_of tr) cs"
  by (induction cs arbitrary: acc) (simp_all add: evaluate_candidate_server_requests)

lemma foldl_candidates_server_total:
  "totalEvaluations (fst (foldl (evaluate_candidate_server E tr) acc cs)) =
     totalEvaluations (fst acc) + length cs"
  by (induction cs arbitrary: acc) (simp_all add: evaluate_candidate_server_total)

lemma foldl_candidates_server_ledger:
  "ledger_ok (evaluation_server E) d (fst acc) \<Longrightarrow>
   ledger_ok (evaluation_server E) d (fst (foldl (evaluate_candidate_server E tr) acc cs))"
  by (induction cs arbitrary: acc) (simp_all add: ledger_candidate_server)

subsection \<open>One trend\<close>

lemma ledger_ok_console [simp]:
  "ledger_ok ev d (st\<lparr>console := x\<rparr>) = ledger_ok ev d st"
  by (simp add: ledger_ok_def)

lemma ledger_ok_events [simp]:
  "ledger_ok ev d (st\<lparr>events := x\<rparr>) = ledger_ok ev d st"
  by (simp add: ledger_ok_def)

lemma ledger_ok_trendResults [simp]:
  "ledger_ok ev d (st\<lparr>trendResults := x\<rparr>) = ledger_ok ev d st"
  by (simp add: ledger_ok_def)

lemma process_trend_cli_ledger:
  "ledger_ok (evaluation_cli E) d st \<Longrightarrow>
   ledger_ok (evaluation_cli E) d (fst (process_trend_cli E allVideos st tr))"
  by (simp add: process_trend_cli_def Let_def foldl_candidates_cli_ledger split: sum.split)

lemma process_trend_cli_requests:
  "requests (fst (process_trend_cli E allVideos st tr)) =
     requests st @
     (case getCandidateVideos_cli E (db st) tr allVideos of
        Inl error \<Rightarrow> []
      | Inr cs \<Rightarrow> map (request_of tr) cs)"
  by (simp add: process_trend_cli_def Let_def foldl_candidates_cli_requests split: sum.split)

lemma process_trend_server_ledger:
  "ledger_ok (evaluation_server E) d st \<Longrightarrow>
   ledger_ok (evaluation_server E) d (fst (process_trend_server E allVideos st trendId))"
  by (simp add: process_trend_server_def Let_def foldl_candidates_server_ledger
      split: option.split sum.split prod.split)

lemma process_trend_server_requests:
  "requests (fst (process_trend_server E allVideos st trendId)) =
     requests st @
     (case getTrend (db st) trendId of
        None \<Rightarrow> []
      | Some tr \<Rightarrow>
          (case fst (getCandidateVideos_server E (db st) tr allVideos) of
             Inl error \<Rightarrow> []
           | Inr cs \<Rightarrow> map (request_of tr) cs))"
  by (simp add: process_trend_server_def Let_def foldl_candidates_server_requests
      split: option.split sum.split prod.split)

subsection \<open>The loop over the trends\<close>

lemma trends_loop_cli_ledger:
  "ledger_ok (evaluation_cli E) d st \<Longrightarrow>
   ledger_ok (evaluation_cli E) d (fst (trends_loop_cli E allVideos st ts))"
proof (induction ts arbitrary: st)
  case Nil
  then show ?case by simp
next
  case (Cons tr rest)
  from Cons.prems have "ledger_ok (evaluation_cli E) d (fst (process_trend_cli E allVideos st tr))"
    by (rule process_trend_cli_ledger)
  with Cons.IH show ?case
    by (auto split: prod.split option.split)
qed

lemma trends_loop_server_ledger:
  "ledger_ok (evaluation_server E) d st \<Longrightarrow>
   ledger_ok (evaluation_server E) d (fst (trends_loop_server E allVideos st ids))"
proof (induction ids arbitrary: st)
  case Nil
  then show ?case by simp
next
  case (Cons trendId rest)
  from Cons.prems
  have "ledger_ok (evaluation_server E) d (fst (process_trend_server E allVideos st trendId))"
    by (rule process_trend_server_ledger)
  with Cons.IH show ?case
    by (auto split: prod.split option.split)
qed

subsection \<open>A whole run\<close>

lemma matchTrendsToVideos_no_trends:
  "trends d = [] \<Longrightarrow>
   matchTrendsToVideos E d =
     (\<lparr>db = d, totalEvaluations = 0, acceptedCount = 0,
       console = [LogStarting, LogDatabasePath, LogNoTrends], requests = []\<rparr>, None)"
  by (simp add: matchTrendsToVideos_def getAllTrends_def)

lemma matchTrendsToVideos_no_videos:
  "trends d \<noteq> [] \<Longrightarrow> videos d = [] \<Longrightarrow>
   matchTrendsToVideos E d =
     (\<lparr>db = d, totalEvaluations = 0, acceptedCount = 0,
       console = [LogStarting, LogDatabasePath, LogNoVideos], requests = []\<rparr>, None)"
  by (simp add: matchTrendsToVideos_def getAllTrends_def getAllVideos_def)

lemma matchTrendsToVideos_run:
  "trends d \<noteq> [] \<Longrightarrow> videos d \<noteq> [] \<Longrightarrow>
   matchTrendsToVideos E d =
     (case trends_loop_cli E (getAllVideos d) (cli_start d) (getAllTrends d) of
        (st2, Some error) \<Rightarrow> (st2, Some error)
      | (st2, None) \<Rightarrow> (st2\<lparr>console := console st2 @ summary_lines st2\<rparr>, None))"
  by (simp add: matchTrendsToVideos_def getAllTrends_def getAllVideos_def cli_start_def
      summary_lines_def Let_def split: prod.split option.split)

lemma match_selected_bad_request:
  "body = None \<or> body = Some [] \<Longrightarrow>
   match_selected E d body =
     (\<lparr>db = d, totalEvaluations = 0, acceptedCount = 0, console = [], requests = [],
       events = [], trendResults = []\<rparr>, BadRequest)"
  by (auto simp: match_selected_def)

lemma match_selected_run:
  "trendIds \<noteq> [] \<Longrightarrow>
   match_selected E d (Some trendIds) =
     (case trends_loop_server E (getAllVideos d) (server_start d trendIds) trendIds of
        (st2, Some error) \<Rightarrow> (st2\<lparr>events := events st2 @ [EvError (message error)]\<rparr>, EventStream)
      | (st2, None) \<Rightarrow> (st2\<lparr>events := events st2 @ [complete_event st2]\<rparr>, EventStream))"
  by (simp add: match_selected_def server_start_def complete_event_def Let_def
      split: prod.split option.split)

lemma ledger_cli_start: "ledger_ok ev d (cli_start d)"
  by (simp add: ledger_ok_def cli_start_def clearRecommendations_def)

lemma ledger_server_start: "ledger_ok ev d (server_start d trendIds)"
  by (simp add: ledger_ok_def server_start_def clearRecommendations_def)

lemma matchTrendsToVideos_ledger:
  assumes "trends d \<noteq> []" "videos d \<noteq> []"
  shows "ledger_ok (evaluation_cli E) d (fst (matchTrendsToVideos E d))"
proof -
  have "ledger_ok (evaluation_cli E) d
      (fst (trends_loop_cli E (getAllVideos d) (cli_start d) (getAllTrends d)))"
    by (rule trends_loop_cli_ledger) (rule ledger_cli_start)
  with assms show ?thesis
    by (auto simp: matchTrendsToVideos_run split: prod.split option.split)
qed

lemma match_selected_ledger:
  assumes "trendIds \<noteq> []"
  shows "ledger_ok (evaluation_server E) d (fst (match_selected E d (Some trendIds)))"
proof -
  have "ledger_ok (evaluation_server E) d
      (fst (trends_loop_server E (getAllVideos d) (server_start d trendIds) trendIds))"
    by (rule trends_loop_server_ledger) (rule ledger_server_start)
  with assms show ?thesis
    by (auto simp: match_selected_run split: prod.split option.split)
qed

lemma matchTrendsToVideos_counts:
  "totalEvaluations (fst (matchTrendsToVideos E d)) =
     length (requests (fst (matchTrendsToVideos E d))) \<and>
   acceptedCount (fst (matchTrendsToVideos E d)) =
     length (filter (\<lambda>q. accepted (evaluation_cli E q)) (requests (fst (matchTrendsToVideos E d))))"
proof (cases "trends d \<noteq> [] \<and> videos d \<noteq> []")
  case True
  then show ?thesis
    using matchTrendsToVideos_ledger [of d E] by (simp add: ledger_ok_def)
next
  case False
  then show ?thesis
    by (cases "trends d = []")
       (simp_all add: matchTrendsToVideos_no_trends matchTrendsToVideos_no_videos)
qed

lemma match_selected_counts:
  "totalEvaluations (fst (match_selected E d body)) =
     length (requests (fst (match_selected E d body))) \<and>
   acceptedCount (fst (match_selected E d body)) =
     length (filter (\<lambda>q. accepted (evaluation_server E q))
       (requests (fst (match_selected E d body))))"
proof (cases "body = None \<or> body = Some []")
  case True
  then show ?thesis
    by (simp add: match_selected_bad_request)
next
  case False
  then obtain trendIds where "body = Some trendIds" "trendIds \<noteq> []"
    by auto
  then show ?thesis
    using match_selected_ledger [of trendIds E d] by (simp add: ledger_ok_def)
qed

lemma matchTrendsToVideos_summary:
  assumes "trends d \<noteq> []" "videos d \<noteq> []" "snd (matchTrendsToVideos E d) = None"
  shows "drop (length (console (fst (matchTrendsToVideos E d))) - 5)
           (console (fst (matchTrendsToVideos E d))) =
         summary_lines (fst (matchTrendsToVideos E d))"
  using assms
  by (auto simp: matchTrendsToVideos_run summary_lines_def split: prod.splits option.splits)

lemma match_selected_complete:
  assumes "trendIds \<noteq> []"
  shows "last (events (fst (match_selected E d (Some trendIds)))) =
     (case snd (trends_loop_server E (getAllVideos d) (server_start d trendIds) trendIds) of
        None \<Rightarrow> complete_event (fst (match_selected E d (Some trendIds)))
      | Some error \<Rightarrow> EvError (message error))"
  using assms
  by (auto simp: match_selected_run complete_event_def split: prod.splits option.splits)

subsection \<open>A run does not read the old table\<close>









section \<open>Properties of the evaluation client\<close>


lemma validate_structure_fields:
  "validate_structure v = Inr checked \<Longrightarrow>
   get_prop v (js ''semantic_relevance'') = Some (JNum (LLMEvaluation.semantic_relevance checked)) \<and>
   get_prop v (js ''intro_support'') = Some (JNum (LLMEvaluation.intro_support checked)) \<and>
   get_prop v (js ''honesty_risk'') = Some (JNum (LLMEvaluation.honesty_risk checked)) \<and>
   get_prop v (js ''allowed'') = Some (JBool (allowed checked)) \<and>
   LLMEvaluation.titles checked = get_prop v (js ''titles'') \<and>
   LLMEvaluation.thumbnails checked = get_prop v (js ''thumbnails'') \<and>
   LLMEvaluation.notes checked = get_prop v (js ''notes'')"
proof -
  have num: "as_number p = Some x \<Longrightarrow> p = Some (JNum x)" for p x
    by (cases p rule: as_number.cases) auto
  have bool: "as_boolean p = Some b \<Longrightarrow> p = Some (JBool b)" for p b
    by (cases p rule: as_boolean.cases) auto
  assume "validate_structure v = Inr checked"
  then show ?thesis
    by (auto simp: validate_structure_def split: if_splits option.splits dest: num bool)
qed

lemma evaluateWithLLM_cli_cases:
  "fst (evaluateWithLLM_cli E tr vd excerpts) =
     (case evaluateWithLLM_cli_try E tr vd excerpts of
        Inl error \<Rightarrow> rejection (js ''Evaluation failed'')
      | Inr checked \<Rightarrow> checked)"
  by (simp add: evaluateWithLLM_cli_def split: sum.split)

lemma fst_parse_with_repair:
  "fst (parse_with_repair E content) =
     (case JSON_parse E content of
        Inr v \<Rightarrow> Inr v
      | Inl parseError \<Rightarrow>
          (case JSON_parse E (brace_cleanup content) of
             Inr v \<Rightarrow> Inr v
           | Inl secondError \<Rightarrow>
               (case jsonrepair E content of
                  Inl thirdError \<Rightarrow> Inl parseError
                | Inr fixedContent \<Rightarrow>
                    (case JSON_parse E fixedContent of
                       Inl thirdError \<Rightarrow> Inl parseError
                     | Inr v \<Rightarrow> Inr v))))"
  by (simp add: parse_with_repair_def Let_def split: sum.split)

lemma evaluateWithLLM_server_cases:
  "fst (evaluateWithLLM_server E tr vd excerpts) =
     (case chat_completion E tr vd excerpts of
        Inl error \<Rightarrow> failed_evaluation error
      | Inr c \<Rightarrow>
          (case fst (parse_with_repair E (content_or_default c)) of
             Inl parseError \<Rightarrow> rejection (js ''JSON parse failed: '' @ message parseError)
           | Inr v \<Rightarrow>
               (case validate_structure v of
                  Inl error \<Rightarrow> failed_evaluation error
                | Inr checked \<Rightarrow> checked)))"
  by (simp add: evaluateWithLLM_server_def split: sum.split prod.split)

subsection \<open>The brace cleanup\<close>

lemma indexOf_first: "c \<notin> set pre \<Longrightarrow> indexOf (pre @ c # rest) c = int (length pre)"
  by (induction pre) (auto simp: Let_def)

lemma lastIndexOf_last:
  "c \<notin> set post \<Longrightarrow> lastIndexOf (xs @ c # post) c = int (length xs)"
  using indexOf_first [of c "rev post" "rev xs"] by (simp add: lastIndexOf_def Let_def)

lemma brace_cleanup_between:
  assumes "123 \<notin> set pre" "125 \<notin> set post"
  shows "brace_cleanup (pre @ 123 # mid @ 125 # post) = 123 # mid @ [125]"
proof -
  have first: "indexOf (pre @ 123 # mid @ 125 # post) (of_char (CHR ''{'')) = int (length pre)"
    using indexOf_first [OF assms(1)] by simp
  have dropped: "(if int (length pre) > 0
      then drop (nat (int (length pre))) (pre @ 123 # mid @ 125 # post)
      else pre @ 123 # mid @ 125 # post) = (123 # mid) @ 125 # post"
    by simp
  have last: "lastIndexOf ((123 # mid) @ 125 # post) (of_char (CHR ''}'')) =
      int (length (123 # mid))"
    using lastIndexOf_last [OF assms(2), of "123 # mid"] by simp
  have cut: "take (nat (2 + int (length mid))) (123 # mid @ 125 # post) = 123 # mid @ [125]"
  proof -
    have "nat (2 + int (length mid)) = Suc (Suc (length mid))"
      by simp
    then show ?thesis
      by simp
  qed
  show ?thesis
    unfolding brace_cleanup_def Let_def first dropped last
    by (simp add: substring_def cut)
qed

section \<open>The model on the small corpus\<close>

lemmas json_eval =
  parse_json_def parse_value.simps parse_members.simps parse_elements.simps
  js_def skip_ws_def is_ws_def is_digit_def parse_number_def Let_def digits_value_def
  scale10_def prepend_def

lemma parse_good_answer: "parse_json good_answer = Some good_value"
  by (simp add: good_answer_def good_value_def json_eval)

lemma parse_wrapped_answer: "parse_json wrapped_answer = None"
  by (simp add: wrapped_answer_def json_eval)

lemma brace_cleanup_wrapped_answer:
  \<open>brace_cleanup wrapped_answer =
     js ''{"semantic_relevance":0.9,"intro_support":0.9,"honesty_risk":0.1,"allowed":false}''\<close>
  by (simp add: wrapped_answer_def brace_cleanup_def lastIndexOf_def substring_def js_def Let_def)

lemma parse_wrapped_inner: "parse_json (brace_cleanup wrapped_answer) = Some inner_value"
  by (simp add: brace_cleanup_wrapped_answer inner_value_def json_eval)

lemma validate_good_value:
  "validate_structure good_value =
     Inr \<lparr>LLMEvaluation.semantic_relevance = 0.8, intro_support = 0.8, honesty_risk = 0.1,
          allowed = True, titles = Some (JArr [JStr (js ''A'')]),
          thumbnails = Some (JArr [JStr (js ''B'')]), notes = Some (JStr (js ''ok''))\<rparr>"
  by (simp add: validate_structure_def good_value_def js_def)

lemma validate_inner_value:
  "validate_structure inner_value =
     Inr \<lparr>LLMEvaluation.semantic_relevance = 0.9, intro_support = 0.9, honesty_risk = 0.1,
          allowed = False, titles = None, thumbnails = None, notes = None\<rparr>"
  by (simp add: validate_structure_def inner_value_def js_def)

lemma good_answer_nonempty: "good_answer \<noteq> []"
  by (simp add: good_answer_def js_def)

lemma wrapped_answer_nonempty: "wrapped_answer \<noteq> []"
  by (simp add: wrapped_answer_def js_def)

lemma evaluateWithLLM_cli_video1:
  "evaluateWithLLM_cli providers tr video1 excerpts =
     (\<lparr>LLMEvaluation.semantic_relevance = 0.8, intro_support = 0.8, honesty_risk = 0.1,
       allowed = True, titles = Some (JArr [JStr (js ''A'')]),
       thumbnails = Some (JArr [JStr (js ''B'')]), notes = Some (JStr (js ''ok''))\<rparr>, [])"
  by (simp add: evaluateWithLLM_cli_def evaluateWithLLM_cli_try_def providers_def video1_def
      content_or_default_def good_answer_nonempty JSON_parse_with_def parse_good_answer
      validate_good_value)

lemma evaluateWithLLM_cli_video2:
  "evaluateWithLLM_cli providers tr video2 excerpts =
     (rejection (js ''Evaluation failed''),
      [LogEvaluationFailed (SyntaxError (js ''Unexpected token''))])"
  by (simp add: evaluateWithLLM_cli_def evaluateWithLLM_cli_try_def providers_def video2_def
      content_or_default_def wrapped_answer_nonempty JSON_parse_with_def parse_wrapped_answer)

lemma evaluateWithLLM_server_video1:
  "evaluateWithLLM_server providers tr video1 excerpts =
     (\<lparr>LLMEvaluation.semantic_relevance = 0.8, intro_support = 0.8, honesty_risk = 0.1,
       allowed = True, titles = Some (JArr [JStr (js ''A'')]),
       thumbnails = Some (JArr [JStr (js ''B'')]), notes = Some (JStr (js ''ok''))\<rparr>, [])"
  by (simp add: evaluateWithLLM_server_def parse_with_repair_def providers_def video1_def
      content_or_default_def good_answer_nonempty JSON_parse_with_def parse_good_answer
      validate_good_value)

lemma evaluateWithLLM_server_video2:
  "evaluateWithLLM_server providers tr video2 excerpts =
     (\<lparr>LLMEvaluation.semantic_relevance = 0.9, intro_support = 0.9, honesty_risk = 0.1,
       allowed = False, titles = None, thumbnails = None, notes = None\<rparr>,
      [LogJsonParseError (js ''Unexpected token''),
       LogRawResponse (substring wrapped_answer 0 500), LogBraceCleanupOk])"
  by (simp add: evaluateWithLLM_server_def parse_with_repair_def providers_def video2_def
      content_or_default_def wrapped_answer_nonempty JSON_parse_with_def parse_wrapped_answer
      parse_wrapped_inner validate_inner_value)

lemma all_candidates_example:
  "all_candidates providers [1] (video_chunks corpus) [video1, video2] = [candidate1, candidate2]"
  by (simp add: all_candidates_def score_chunks_def group_by_video_def add_score_def
      build_candidate_def sort_desc_def corpus_def providers_def video1_def video2_def
      candidate1_def candidate2_def Let_def)

lemma getCandidateVideos_cli_example:
  "getCandidateVideos_cli providers corpus trend1 [video1, video2] = Inr [candidate1, candidate2]"
proof -
  have "generateEmbedding providers q = Inr [1]" for q
    by (simp add: providers_def)
  then show ?thesis
    by (simp add: getCandidateVideos_cli_def getAllChunks_def all_candidates_example
        TOP_CANDIDATES_PER_TREND_def)
qed

lemma getCandidateVideos_server_example:
  "getCandidateVideos_server providers corpus trend1 [video1, video2] =
     (Inr [candidate1, candidate2],
      [LogVectorSearchDebug, LogTotalVideos 2, LogTotalChunks 4, LogTrendQuery ''AI layoffs'',
       LogCandidatesTotal 2, LogTopScores [0.9, 0.3], LogReturning 2])"
proof -
  have embed: "generateEmbedding providers q = Inr [1]" for q
    by (simp add: providers_def)
  have chunks: "length (video_chunks corpus) = 4" "video_chunks corpus \<noteq> []"
    by (simp_all add: corpus_def)
  have query: "substring (Trend.title trend1) 0 80 = ''AI layoffs''"
    by (simp add: trend1_def substring_def)
  have top: "avgSimilarity candidate1 = 0.9" "avgSimilarity candidate2 = 0.3"
    by (simp_all add: candidate1_def candidate2_def)
  show ?thesis
    by (simp add: getCandidateVideos_server_def getAllChunks_def all_candidates_example
        TOP_CANDIDATES_PER_TREND_def Let_def embed chunks query top)
qed

lemma corpus_tables:
  "getAllTrends corpus = [trend1]"
  "getAllVideos corpus = [video1, video2]"
  "trends corpus = [trend1]"
  "videos corpus = [video1, video2]"
  "recommendations corpus = []"
  "clearRecommendations corpus = corpus"
  by (simp_all add: corpus_def getAllTrends_def getAllVideos_def clearRecommendations_def)

lemma candidate_fields:
  "video candidate1 = video1" "topChunks candidate1 = [''jobs'', ''careers'']"
  "video candidate2 = video2" "topChunks candidate2 = [''rice'']"
  by (simp_all add: candidate1_def candidate2_def)

lemma accepted_good_evaluation: "accepted good_evaluation"
  by (simp add: accepted_def good_evaluation_def MIN_SEMANTIC_RELEVANCE_def
      MIN_INTRO_SUPPORT_def MAX_HONESTY_RISK_def)

lemma not_accepted_rejection: "\<not> accepted (rejection n)"
  by (simp add: accepted_def rejection_def)

lemma cli_run_example:
  "matchTrendsToVideos providers corpus =
     (\<lparr>db = insertRecommendation corpus row1, totalEvaluations = 2, acceptedCount = 1,
       console =
         [LogStarting, LogDatabasePath, LogProcessing 1 2, LogTrend (Trend.title trend1),
          LogFound 2, LogAccepted (title_current video1), LogScores 0.8 0.8 0.1,
          LogEvaluationFailed (SyntaxError (js ''Unexpected token'')),
          LogRejected (title_current video2), LogBlank,
          LogSummary, LogTotalEvaluations 2, LogAcceptedTotal 1, LogRejectedTotal 1,
          LogMatchingComplete],
       requests = [request_of trend1 candidate1, request_of trend1 candidate2]\<rparr>, None)"
proof -
  have e1: "evaluateWithLLM_cli providers tr video1 excerpts = (good_evaluation, [])"
    for tr excerpts
    by (simp add: evaluateWithLLM_cli_video1 good_evaluation_def)
  have scores: "LLMEvaluation.semantic_relevance good_evaluation = 0.8"
    "LLMEvaluation.intro_support good_evaluation = 0.8"
    "LLMEvaluation.honesty_risk good_evaluation = 0.1"
    by (simp_all add: good_evaluation_def)
  show ?thesis
    by (simp add: matchTrendsToVideos_def corpus_tables process_trend_cli_def
        getCandidateVideos_cli_example evaluate_candidate_cli_def candidate_fields e1
        evaluateWithLLM_cli_video2 accepted_good_evaluation not_accepted_rejection scores
        row1_def request_of_def Let_def)
qed

lemma getTrend_corpus:
  "getTrend corpus ''stale'' = None" "getTrend corpus ''t1'' = Some trend1"
  by (simp_all add: getTrend_def corpus_def trend1_def)

lemma server_run_example:
  "match_selected providers corpus (Some [''stale'', ''t1'']) =
     (\<lparr>db = insertRecommendation corpus row1, totalEvaluations = 2, acceptedCount = 1,
       console =
         [LogDatabasePath, LogVectorSearchDebug, LogTotalVideos 2, LogTotalChunks 4,
          LogTrendQuery ''AI layoffs'', LogCandidatesTotal 2, LogTopScores [0.9, 0.3],
          LogReturning 2, LogJsonParseError (js ''Unexpected token''),
          LogRawResponse (substring wrapped_answer 0 500), LogBraceCleanupOk],
       requests = [request_of trend1 candidate1, request_of trend1 candidate2],
       events =
         [EvStart 2, EvTrend (Trend.title trend1), EvYoutube Fetching, EvYoutube Unavailable,
          EvCandidates 2, EvAccepted (title_current video1) (0.8, 0.8, 0.1),
          EvRejected (title_current video2), EvComplete 2 1 1 [result1]],
       trendResults = [result1]\<rparr>, EventStream)"
proof -
  have e1: "evaluateWithLLM_server providers tr video1 excerpts = (good_evaluation, [])"
    for tr excerpts
    by (simp add: evaluateWithLLM_server_video1 good_evaluation_def)
  have fields: "LLMEvaluation.semantic_relevance good_evaluation = 0.8"
    "LLMEvaluation.intro_support good_evaluation = 0.8"
    "LLMEvaluation.honesty_risk good_evaluation = 0.1"
    "LLMEvaluation.titles good_evaluation = Some (JArr [JStr (js ''A'')])"
    "LLMEvaluation.thumbnails good_evaluation = Some (JArr [JStr (js ''B'')])"
    "LLMEvaluation.notes good_evaluation = Some (JStr (js ''ok''))"
    by (simp_all add: good_evaluation_def)
  have no: "\<not> accepted \<lparr>LLMEvaluation.semantic_relevance = 0.9, intro_support = 0.9,
      honesty_risk = 0.1, allowed = False, titles = None, thumbnails = None, notes = None\<rparr>"
    by (simp add: accepted_def)
  have yt: "getYouTubeTitleSuggestions providers q = Inr []" for q
    by (simp add: providers_def)
  have db: "db (st\<lparr>console := x\<rparr>) = db st" for st :: server_state and x
    by simp
  show ?thesis
    by (simp add: match_selected_def corpus_tables process_trend_server_def getTrend_corpus
        getCandidateVideos_server_example evaluate_candidate_server_def candidate_fields e1
        evaluateWithLLM_server_video2 accepted_good_evaluation no fields yt
        row1_def result1_def request_of_def Let_def)
qed

lemma parse_truncated_answer: "parse_json truncated_answer = None"
  by (simp add: truncated_answer_def json_eval)

lemma brace_cleanup_truncated_answer: "brace_cleanup truncated_answer = truncated_answer"
  by (simp add: truncated_answer_def brace_cleanup_def lastIndexOf_def js_def Let_def)

lemma parse_repaired_answer: \<open>parse_json (truncated_answer @ js ''"}'') = Some repaired_value\<close>
  by (simp add: truncated_answer_def repaired_value_def json_eval)

lemma parse_garbage: "parse_json (js ''garbage'') = None"
  by (simp add: json_eval)

lemma brace_cleanup_garbage: "brace_cleanup (js ''garbage'') = js ''garbage''"
  by (simp add: brace_cleanup_def lastIndexOf_def js_def Let_def)

lemma parse_empty_object: "parse_json (js ''{}'') = Some (JObj [])"
  by (simp add: json_eval)

lemma validate_empty_object:
  "validate_structure (JObj []) = Inl (Error (js ''Invalid LLM response structure''))"
  by (simp add: validate_structure_def)

lemma JSON_parse_providers:
  "JSON_parse providers s =
     (case parse_json s of None \<Rightarrow> Inl (SyntaxError (js ''Unexpected token'')) | Some v \<Rightarrow> Inr v)"
  "JSON_parse providers_silent s = JSON_parse providers s"
  "JSON_parse providers_repairing s = JSON_parse providers s"
  "JSON_parse providers_down s = JSON_parse providers s"
  by (simp_all add: providers_def providers_silent_def providers_repairing_def
      providers_down_def JSON_parse_with_def)

lemma evaluateWithLLM_server_silent:
  "fst (evaluateWithLLM_server providers_silent tr vd excerpts) =
     rejection (js ''Evaluation failed: Invalid LLM response structure'')"
proof -
  have "chat_completion providers_silent tr vd excerpts = Inr None"
    by (simp add: providers_silent_def)
  moreover have "fst (parse_with_repair providers_silent (content_or_default None)) = Inr (JObj [])"
    by (simp add: fst_parse_with_repair JSON_parse_providers content_or_default_def
        parse_empty_object)
  ultimately show ?thesis
    by (simp add: evaluateWithLLM_server_cases validate_empty_object failed_evaluation_def js_def)
qed

section \<open>Properties of the candidate retriever\<close>

subsection \<open>Grouping by video\<close>

lemma first_seen_snoc:
  "first_seen (xs @ [k]) = (if k \<in> set xs then first_seen xs else first_seen xs @ [k])"
  by (simp add: first_seen_def)

lemma set_first_seen [simp]: "set (first_seen xs) = set xs"
  by (simp add: first_seen_def)

lemma distinct_first_seen [simp]: "distinct (first_seen xs)"
  by (simp add: first_seen_def)

lemma group_of_snoc:
  "group_of (cs @ [s]) k =
     (if ChunkScore.video_id s = k
      then \<lparr>VideoData.scores = VideoData.scores (group_of cs k) @ [similarity s],
            chunks = chunks (group_of cs k) @ [(ChunkScore.chunk_text s, similarity s)]\<rparr>
      else group_of cs k)"
  by (simp add: group_of_def)

lemma group_of_absent:
  "k \<notin> ChunkScore.video_id ` set cs \<Longrightarrow>
   group_of cs k = \<lparr>VideoData.scores = [], chunks = []\<rparr>"
  by (auto simp: group_of_def filter_empty_conv)

lemma map_of_groups_of:
  "map_of (groups_of cs) k = None \<longleftrightarrow> k \<notin> ChunkScore.video_id ` set cs"
  by (auto simp: groups_of_def map_of_eq_None_iff image_iff)

lemma add_score_groups_of: "add_score (groups_of cs) s = groups_of (cs @ [s])"
proof (cases "ChunkScore.video_id s \<in> ChunkScore.video_id ` set cs")
  case True
  then have "map_of (groups_of cs) (ChunkScore.video_id s) \<noteq> None"
    by (simp add: map_of_groups_of)
  with True show ?thesis
    by (auto simp: add_score_def Let_def groups_of_def first_seen_snoc group_of_snoc)
next
  case False
  then have none: "map_of (groups_of cs) (ChunkScore.video_id s) = None"
    by (simp add: map_of_groups_of)
  from False have other: "k \<in> ChunkScore.video_id ` set cs \<Longrightarrow> k \<noteq> ChunkScore.video_id s" for k
    by blast
  from False none show ?thesis
    by (auto simp: add_score_def Let_def groups_of_def first_seen_snoc group_of_snoc
        group_of_absent dest: other)
qed

lemma group_by_video_groups_of: "group_by_video cs = groups_of cs"
proof (induction cs rule: rev_induct)
  case Nil
  show ?case
    by (simp add: group_by_video_def groups_of_def first_seen_def)
next
  case (snoc s cs)
  then show ?case
    by (simp add: group_by_video_def add_score_groups_of)
qed

subsection \<open>Scores of the stored chunks\<close>

lemma score_chunks_filter:
  "filter (\<lambda>s. ChunkScore.video_id s = k) (score_chunks E emb allChunks) =
     score_chunks E emb (filter (\<lambda>chunk. VideoChunk.video_id chunk = k) allChunks)"
  by (simp add: score_chunks_def filter_map o_def)

lemma score_chunks_ids:
  "map ChunkScore.video_id (score_chunks E emb allChunks) = map VideoChunk.video_id allChunks"
  by (simp add: score_chunks_def)

lemma score_chunks_similarity:
  "map similarity (score_chunks E emb xs) =
     map (\<lambda>chunk. cosineSimilarity E emb (embedding chunk)) xs"
  by (simp add: score_chunks_def)

lemma score_chunks_entries:
  "map (\<lambda>s. (ChunkScore.chunk_text s, similarity s)) (score_chunks E emb xs) =
     map (\<lambda>chunk. (VideoChunk.chunk_text chunk, cosineSimilarity E emb (embedding chunk))) xs"
  by (simp add: score_chunks_def)

lemma group_of_score_chunks:
  "group_of (score_chunks E emb allChunks) k =
     \<lparr>VideoData.scores =
        map (\<lambda>chunk. cosineSimilarity E emb (embedding chunk))
          (filter (\<lambda>chunk. VideoChunk.video_id chunk = k) allChunks),
      chunks =
        map (\<lambda>chunk. (VideoChunk.chunk_text chunk, cosineSimilarity E emb (embedding chunk)))
          (filter (\<lambda>chunk. VideoChunk.video_id chunk = k) allChunks)\<rparr>"
  by (simp add: group_of_def score_chunks_filter score_chunks_similarity score_chunks_entries)

lemma foldl_plus: "foldl (+) a xs = a + sum_list xs" for a :: real
  by (induction xs arbitrary: a) simp_all

subsection \<open>The candidates\<close>

lemma build_candidate_Some:
  "build_candidate allVideos (k, group_of (score_chunks E emb allChunks) k) = Some c \<Longrightarrow>
   find (\<lambda>v. Video.video_id v = k) allVideos = Some (video c) \<and>
   Video.video_id (video c) = k \<and>
   avgSimilarity c =
     mean (map (\<lambda>chunk. cosineSimilarity E emb (embedding chunk))
             (own_chunks allChunks (video c))) \<and>
   topChunks c =
     map fst (take 5 (sort_desc snd
       (map (\<lambda>chunk. (VideoChunk.chunk_text chunk, cosineSimilarity E emb (embedding chunk)))
          (own_chunks allChunks (video c)))))"
  by (auto simp: build_candidate_def group_of_score_chunks own_chunks_def mean_def foldl_plus
      find_Some_iff split: option.splits)

lemma all_candidates_groups:
  "all_candidates E emb allChunks allVideos =
     sort_desc avgSimilarity
       (List.map_filter (build_candidate allVideos)
          (groups_of (score_chunks E emb allChunks)))"
  by (simp add: all_candidates_def group_by_video_groups_of)

lemma all_candidates_member:
  assumes "c \<in> set (all_candidates E emb allChunks allVideos)"
  shows "video c \<in> set allVideos \<and>
     find (\<lambda>v. Video.video_id v = Video.video_id (video c)) allVideos = Some (video c) \<and>
     own_chunks allChunks (video c) \<noteq> [] \<and>
     avgSimilarity c =
       mean (map (\<lambda>chunk. cosineSimilarity E emb (embedding chunk))
               (own_chunks allChunks (video c))) \<and>
     topChunks c =
       map fst (take 5 (sort_desc snd
         (map (\<lambda>chunk. (VideoChunk.chunk_text chunk, cosineSimilarity E emb (embedding chunk)))
            (own_chunks allChunks (video c)))))"
proof -
  from assms obtain k where k: "k \<in> VideoChunk.video_id ` set allChunks"
    and built: "build_candidate allVideos (k, group_of (score_chunks E emb allChunks) k) = Some c"
    by (auto simp: all_candidates_groups set_sort_desc in_set_map_filter groups_of_def
        score_chunks_ids)
  from build_candidate_Some [OF built] have id: "Video.video_id (video c) = k"
    by simp
  with k have "own_chunks allChunks (video c) \<noteq> []"
    by (auto simp: own_chunks_def filter_empty_conv)
  with build_candidate_Some [OF built] id all_candidates_video [OF assms] show ?thesis
    by simp
qed

lemma map_filter_ids:
  "map (\<lambda>c. Video.video_id (video c)) (List.map_filter (build_candidate allVideos) entries) =
     filter (\<lambda>k. \<exists>v \<in> set allVideos. Video.video_id v = k) (map fst entries)"
proof (induction entries)
  case Nil
  show ?case by simp
next
  case (Cons e entries)
  show ?case
  proof (cases "build_candidate allVideos e")
    case None
    then have "\<not> (\<exists>v \<in> set allVideos. Video.video_id v = fst e)"
      by (auto simp: build_candidate_def find_None_iff split: option.splits)
    with None Cons.IH show ?thesis
      by simp
  next
    case (Some c)
    from build_candidate_video [OF Some] Some Cons.IH show ?thesis
      by auto
  qed
qed

lemma all_candidates_ids:
  "distinct (map (\<lambda>c. Video.video_id (video c)) (all_candidates E emb allChunks allVideos)) \<and>
   set (map (\<lambda>c. Video.video_id (video c)) (all_candidates E emb allChunks allVideos)) =
     VideoChunk.video_id ` set allChunks \<inter> Video.video_id ` set allVideos"
proof -
  let ?built = "List.map_filter (build_candidate allVideos)
      (groups_of (score_chunks E emb allChunks))"
  have ids: "map (\<lambda>c. Video.video_id (video c)) ?built =
      filter (\<lambda>k. \<exists>v \<in> set allVideos. Video.video_id v = k)
        (first_seen (map VideoChunk.video_id allChunks))"
    by (simp add: map_filter_ids groups_of_def score_chunks_ids o_def)
  then have d: "distinct (map (\<lambda>c. Video.video_id (video c)) ?built)"
    by simp
  have s: "set (map (\<lambda>c. Video.video_id (video c)) ?built) =
      VideoChunk.video_id ` set allChunks \<inter> Video.video_id ` set allVideos"
    unfolding ids by (simp add: set_eq_iff image_iff) metis
  have "distinct (map (\<lambda>c. Video.video_id (video c)) (sort_desc avgSimilarity ?built))"
    using d by (simp add: sort_desc_def distinct_map inj_on_def)
  moreover have "set (map (\<lambda>c. Video.video_id (video c)) (sort_desc avgSimilarity ?built)) =
      set (map (\<lambda>c. Video.video_id (video c)) ?built)"
    by (simp add: set_sort_desc)
  ultimately show ?thesis
    using s by (simp add: all_candidates_groups)
qed

lemma sorted_sort_desc: "sorted_wrt (\<lambda>a b. f b \<le> f a) (sort_desc f xs)"
  using sorted_sort_key [of "\<lambda>x. - f x" xs] by (simp add: sort_desc_def sorted_map)

lemma all_candidates_sorted:
  "sorted_wrt (\<lambda>a b. avgSimilarity b \<le> avgSimilarity a)
     (all_candidates E emb allChunks allVideos)"
  by (simp add: all_candidates_def sorted_sort_desc)

lemma scores_nonempty:
  "entry \<in> set (group_by_video chunkScores) \<Longrightarrow> VideoData.scores (snd entry) \<noteq> []"
  by (auto simp: group_by_video_groups_of groups_of_def group_of_def filter_empty_conv)

section \<open>Requests and rows refer to the corpus\<close>

lemma requests_within_console [simp]:
  "requests_within d (st\<lparr>console := x\<rparr>) = requests_within d st"
  by (simp add: requests_within_def)

lemma requests_within_events [simp]:
  "requests_within d (st\<lparr>events := x\<rparr>) = requests_within d st"
  by (simp add: requests_within_def)

lemma requests_within_trendResults [simp]:
  "requests_within d (st\<lparr>trendResults := x\<rparr>) = requests_within d st"
  by (simp add: requests_within_def)

lemma process_trend_cli_within:
  assumes "requests_within d st" "tr \<in> set (trends d)"
  shows "requests_within d (fst (process_trend_cli E (videos d) st tr))"
proof (cases "getCandidateVideos_cli E (db st) tr (videos d)")
  case (Inl error)
  with assms show ?thesis
    by (simp add: requests_within_def process_trend_cli_requests)
next
  case (Inr cs)
  then have "c \<in> set cs \<Longrightarrow> video c \<in> set (videos d)" for c
    by (rule getCandidateVideos_cli_video)
  with assms Inr show ?thesis
    by (auto simp: requests_within_def process_trend_cli_requests request_of_def)
qed

lemma trends_loop_cli_within:
  "requests_within d st \<Longrightarrow> set ts \<subseteq> set (trends d) \<Longrightarrow>
   requests_within d (fst (trends_loop_cli E (videos d) st ts))"
proof (induction ts arbitrary: st)
  case Nil
  then show ?case by simp
next
  case (Cons tr rest)
  then have "requests_within d (fst (process_trend_cli E (videos d) st tr))"
    by (intro process_trend_cli_within) simp_all
  with Cons show ?case
    by (auto split: prod.split option.split)
qed

lemma getTrend_member: "getTrend d' trendId = Some tr \<Longrightarrow> tr \<in> set (trends d')"
  by (auto simp: getTrend_def find_Some_iff)

lemma process_trend_server_within:
  assumes "requests_within d st" "trends (db st) = trends d"
  shows "requests_within d (fst (process_trend_server E (videos d) st trendId))"
proof (cases "getTrend (db st) trendId")
  case None
  with assms show ?thesis
    by (simp add: requests_within_def process_trend_server_requests)
next
  case (Some tr)
  with assms have tr: "tr \<in> set (trends d)"
    by (auto dest: getTrend_member)
  show ?thesis
  proof (cases "fst (getCandidateVideos_server E (db st) tr (videos d))")
    case (Inl error)
    with assms Some show ?thesis
      by (simp add: requests_within_def process_trend_server_requests)
  next
    case (Inr cs)
    then have "c \<in> set cs \<Longrightarrow> video c \<in> set (videos d)" for c
      by (rule getCandidateVideos_server_video)
    with assms Some Inr tr show ?thesis
      by (auto simp: requests_within_def process_trend_server_requests request_of_def)
  qed
qed

lemma trends_loop_server_within:
  "requests_within d st \<Longrightarrow> ledger_ok (evaluation_server E) d st \<Longrightarrow>
   requests_within d (fst (trends_loop_server E (videos d) st ids))"
proof (induction ids arbitrary: st)
  case Nil
  then show ?case by simp
next
  case (Cons trendId rest)
  from Cons.prems have "trends (db st) = trends d"
    by (simp add: ledger_ok_def)
  with Cons.prems
  have within: "requests_within d (fst (process_trend_server E (videos d) st trendId))"
    by (intro process_trend_server_within)
  from Cons.prems
  have "ledger_ok (evaluation_server E) d (fst (process_trend_server E (videos d) st trendId))"
    by (intro process_trend_server_ledger)
  with within Cons.IH show ?case
    by (auto split: prod.split option.split)
qed

lemma references_from_ledger:
  assumes "ledger_ok ev d st" "requests_within d st"
  shows "references_ok (db st)"
  unfolding references_ok_def
proof
  fix r
  assume "r \<in> set (recommendations (db st))"
  then have "rec_key r \<in> rec_key ` set (recommendations (db st))"
    by simp
  with assms(1) obtain q where q: "q \<in> set (requests st)" "request_key q = rec_key r"
    by (auto simp: ledger_ok_def)
  with assms(2) have "fst q \<in> set (trends d)" "fst (snd q) \<in> set (videos d)"
    by (auto simp: requests_within_def)
  moreover from assms(1) have "trends (db st) = trends d" "videos (db st) = videos d"
    by (simp_all add: ledger_ok_def)
  moreover from q have "Trend.trend_id (fst q) = Recommendation.trend_id r"
      "Video.video_id (fst (snd q)) = Recommendation.video_id r"
    by (simp_all add: request_key_def rec_key_def)
  ultimately show "(\<exists>t \<in> set (trends (db st)). Trend.trend_id t = Recommendation.trend_id r) \<and>
      (\<exists>v \<in> set (videos (db st)). Video.video_id v = Recommendation.video_id r)"
    by auto
qed

lemma matchTrendsToVideos_references:
  assumes ne: "trends d \<noteq> []" "videos d \<noteq> []"
  shows "references_ok (db (fst (matchTrendsToVideos E d)))"
proof -
  have "requests_within d (cli_start d)"
    by (simp add: requests_within_def cli_start_def)
  then have "requests_within d (fst (trends_loop_cli E (videos d) (cli_start d) (trends d)))"
    by (intro trends_loop_cli_within) simp_all
  with ne have "requests_within d (fst (matchTrendsToVideos E d))"
    by (auto simp: matchTrendsToVideos_run getAllVideos_def getAllTrends_def
        split: prod.split option.split)
  with matchTrendsToVideos_ledger [OF ne, of E] show ?thesis
    by (rule references_from_ledger)
qed

lemma match_selected_references:
  assumes ne: "trendIds \<noteq> []"
  shows "references_ok (db (fst (match_selected E d (Some trendIds))))"
proof -
  have "requests_within d (server_start d trendIds)"
    by (simp add: requests_within_def server_start_def)
  then have "requests_within d
      (fst (trends_loop_server E (videos d) (server_start d trendIds) trendIds))"
    by (intro trends_loop_server_within ledger_server_start)
  with ne have "requests_within d (fst (match_selected E d (Some trendIds)))"
    by (auto simp: match_selected_run getAllVideos_def split: prod.split option.split)
  with match_selected_ledger [OF ne, of E d] show ?thesis
    by (rule references_from_ledger)
qed

section \<open>Properties of the similarity function\<close>

lemma dot_Cons [simp]: "dot (x # xs) (y # ys) = x * y + dot xs ys"
  by (simp add: dot_def)

lemma dot_Nil [simp]: "dot [] b = 0" "dot a [] = 0"
  by (simp_all add: dot_def)

lemma dot_self_nonneg: "0 \<le> dot a a"
  by (induction a) simp_all

lemma dot_commute: "dot a b = dot b a"
proof (induction a arbitrary: b)
  case Nil
  show ?case by simp
next
  case (Cons x xs)
  show ?case
    by (cases b) (simp_all add: Cons.IH mult.commute)
qed

lemma cross_term:
  fixes x y A B C :: real
  assumes "C\<^sup>2 \<le> A * B" "0 \<le> A" "0 \<le> B"
  shows "2 * x * y * C \<le> x\<^sup>2 * B + y\<^sup>2 * A"
proof (cases "A = 0")
  case True
  with assms have "C\<^sup>2 \<le> 0"
    by simp
  then have "C = 0"
    by simp
  with True assms show ?thesis
    by simp
next
  case False
  with assms have pos: "0 < A"
    by simp
  have "A * (x\<^sup>2 * B + y\<^sup>2 * A - 2 * x * y * C) =
      (y * A - x * C)\<^sup>2 + x\<^sup>2 * (A * B - C\<^sup>2)"
    by (simp add: algebra_simps power2_eq_square)
  moreover have "0 \<le> (y * A - x * C)\<^sup>2 + x\<^sup>2 * (A * B - C\<^sup>2)"
    using assms by simp
  ultimately have "0 \<le> A * (x\<^sup>2 * B + y\<^sup>2 * A - 2 * x * y * C)"
    by simp
  with pos have "0 \<le> x\<^sup>2 * B + y\<^sup>2 * A - 2 * x * y * C"
    by (simp add: zero_le_mult_iff)
  then show ?thesis
    by simp
qed

lemma cauchy_schwarz:
  "length a = length b \<Longrightarrow> (dot a b)\<^sup>2 \<le> dot a a * dot b b"
proof (induction a b rule: list_induct2)
  case Nil
  show ?case by simp
next
  case (Cons x xs y ys)
  have "2 * x * y * dot xs ys \<le> x\<^sup>2 * dot ys ys + y\<^sup>2 * dot xs xs"
    using Cons.IH dot_self_nonneg [of xs] dot_self_nonneg [of ys] by (rule cross_term)
  moreover have "(x * y + dot xs ys)\<^sup>2 =
      x\<^sup>2 * y\<^sup>2 + 2 * x * y * dot xs ys + (dot xs ys)\<^sup>2"
    by (simp add: algebra_simps power2_eq_square)
  moreover have "(x * x + dot xs xs) * (y * y + dot ys ys) =
      x\<^sup>2 * y\<^sup>2 + (x\<^sup>2 * dot ys ys + y\<^sup>2 * dot xs xs) + dot xs xs * dot ys ys"
    by (simp add: algebra_simps power2_eq_square)
  ultimately show ?case
    using Cons.IH by simp
qed

lemma abs_dot_le: "length a = length b \<Longrightarrow> \<bar>dot a b\<bar> \<le> magnitude a * magnitude b"
proof -
  assume "length a = length b"
  then have "(dot a b)\<^sup>2 \<le> dot a a * dot b b"
    by (rule cauchy_schwarz)
  then have "sqrt ((dot a b)\<^sup>2) \<le> sqrt (dot a a * dot b b)"
    by (rule real_sqrt_le_mono)
  then show ?thesis
    by (simp add: magnitude_def real_sqrt_mult)
qed

lemma magnitude_nonneg: "0 \<le> magnitude a"
  by (simp add: magnitude_def dot_self_nonneg)

lemma cosine_bounds:
  assumes "length a = length b"
  shows "- 1 \<le> cosineSimilarity_spec a b \<and> cosineSimilarity_spec a b \<le> 1"
proof (cases "magnitude a = 0 \<or> magnitude b = 0")
  case True
  then show ?thesis
    by (simp add: cosineSimilarity_spec_def)
next
  case False
  with magnitude_nonneg [of a] magnitude_nonneg [of b]
  have pos: "0 < magnitude a * magnitude b"
    by simp
  from abs_dot_le [OF assms]
  have "dot a b \<le> magnitude a * magnitude b" "- (magnitude a * magnitude b) \<le> dot a b"
    by (simp_all add: abs_le_iff)
  with pos have "dot a b / (magnitude a * magnitude b) \<le> 1"
      "- 1 \<le> dot a b / (magnitude a * magnitude b)"
    by (simp_all add: divide_le_eq le_divide_eq)
  with False show ?thesis
    by (simp add: cosineSimilarity_spec_def)
qed

lemma cosine_self: "magnitude a \<noteq> 0 \<Longrightarrow> cosineSimilarity_spec a a = 1"
  using dot_self_nonneg [of a] by (simp add: cosineSimilarity_spec_def magnitude_def)

lemma cosine_commute: "cosineSimilarity_spec a b = cosineSimilarity_spec b a"
  by (auto simp: cosineSimilarity_spec_def dot_commute mult.commute)

section \<open>Claim C1: the acceptance gate\<close>



section \<open>Claim C2: the repair cascade\<close>

text \<open>
  C2, as amended. In the server variant the parse attempts are made in this order,
  and the first that succeeds gives the parsed value: the answer as it is (nothing
  more is tried or logged then); the answer with what precedes its first \<open>{\<close> and
  what follows its last \<open>}\<close> removed; the output of the repair pass on the original
  answer. The attempts fail as a whole exactly when the first two fail and the repair
  pass throws or its output does not parse; the error kept is that of the first
  attempt. For an answer \<open>pre { mid } post\<close> with no \<open>{\<close> in \<open>pre\<close> and no \<open>}\<close> in \<open>post\<close>
  the cleanup gives \<open>{ mid }\<close>. The evaluation returned is the parsed value's checked
  form when the value passes the structure check, the rejection with the note
  \<open>JSON parse failed:\<close> when all attempts fail, and the rejection with the note
  \<open>Evaluation failed:\<close> when the parsed value fails the structure check. The CLI
  variant makes the first attempt only and returns the rejection when it fails.
\<close>

theorem repair_cascade:
  "(JSON_parse E content = Inr v \<longrightarrow> parse_with_repair E content = (Inr v, [])) \<and>
   (JSON_parse E content = Inl e1 \<and> JSON_parse E (brace_cleanup content) = Inr v \<longrightarrow>
      fst (parse_with_repair E content) = Inr v) \<and>
   (JSON_parse E content = Inl e1 \<and> JSON_parse E (brace_cleanup content) = Inl e2 \<and>
    jsonrepair E content = Inr fixedContent \<and> JSON_parse E fixedContent = Inr v \<longrightarrow>
      fst (parse_with_repair E content) = Inr v) \<and>
   (fst (parse_with_repair E content) = Inl e \<longleftrightarrow>
      JSON_parse E content = Inl e \<and>
      (\<exists>second. JSON_parse E (brace_cleanup content) = Inl second) \<and>
      (case jsonrepair E content of
         Inl third \<Rightarrow> True
       | Inr repaired \<Rightarrow> (\<exists>third. JSON_parse E repaired = Inl third))) \<and>
   (123 \<notin> set pre \<and> 125 \<notin> set post \<longrightarrow>
      brace_cleanup (pre @ 123 # mid @ 125 # post) = 123 # mid @ [125]) \<and>
   (chat_completion E tr vd excerpts = Inr c \<longrightarrow>
      (case fst (parse_with_repair E (content_or_default c)) of
         Inl parseError \<Rightarrow>
           fst (evaluateWithLLM_server E tr vd excerpts) =
             rejection (js ''JSON parse failed: '' @ message parseError)
       | Inr parsed \<Rightarrow>
           (case validate_structure parsed of
              Inr checked \<Rightarrow> fst (evaluateWithLLM_server E tr vd excerpts) = checked
            | Inl error \<Rightarrow>
                fst (evaluateWithLLM_server E tr vd excerpts) = failed_evaluation error)) \<and>
      (case JSON_parse E (content_or_default c) of
         Inl error \<Rightarrow>
           fst (evaluateWithLLM_cli E tr vd excerpts) = rejection (js ''Evaluation failed'')
       | Inr parsed \<Rightarrow>
           (case validate_structure parsed of
              Inr checked \<Rightarrow> fst (evaluateWithLLM_cli E tr vd excerpts) = checked
            | Inl error \<Rightarrow>
                fst (evaluateWithLLM_cli E tr vd excerpts) =
                  rejection (js ''Evaluation failed''))))"
proof -
  have direct: "JSON_parse E content = Inr v \<longrightarrow> parse_with_repair E content = (Inr v, [])"
    by (simp add: parse_with_repair_def)
  have cleaned: "JSON_parse E content = Inl e1 \<and> JSON_parse E (brace_cleanup content) = Inr v \<longrightarrow>
      fst (parse_with_repair E content) = Inr v"
    by (simp add: fst_parse_with_repair)
  have repaired: "JSON_parse E content = Inl e1 \<and> JSON_parse E (brace_cleanup content) = Inl e2 \<and>
      jsonrepair E content = Inr fixedContent \<and> JSON_parse E fixedContent = Inr v \<longrightarrow>
      fst (parse_with_repair E content) = Inr v"
    by (simp add: fst_parse_with_repair)
  have failed: "fst (parse_with_repair E content) = Inl e \<longleftrightarrow>
      JSON_parse E content = Inl e \<and>
      (\<exists>second. JSON_parse E (brace_cleanup content) = Inl second) \<and>
      (case jsonrepair E content of
         Inl third \<Rightarrow> True
       | Inr repaired \<Rightarrow> (\<exists>third. JSON_parse E repaired = Inl third))"
    by (auto simp: fst_parse_with_repair split: sum.splits)
  have cleanup: "123 \<notin> set pre \<and> 125 \<notin> set post \<longrightarrow>
      brace_cleanup (pre @ 123 # mid @ 125 # post) = 123 # mid @ [125]"
    by (simp add: brace_cleanup_between)
  have client: "chat_completion E tr vd excerpts = Inr c \<longrightarrow>
      (case fst (parse_with_repair E (content_or_default c)) of
         Inl parseError \<Rightarrow>
           fst (evaluateWithLLM_server E tr vd excerpts) =
             rejection (js ''JSON parse failed: '' @ message parseError)
       | Inr parsed \<Rightarrow>
           (case validate_structure parsed of
              Inr checked \<Rightarrow> fst (evaluateWithLLM_server E tr vd excerpts) = checked
            | Inl error \<Rightarrow>
                fst (evaluateWithLLM_server E tr vd excerpts) = failed_evaluation error)) \<and>
      (case JSON_parse E (content_or_default c) of
         Inl error \<Rightarrow>
           fst (evaluateWithLLM_cli E tr vd excerpts) = rejection (js ''Evaluation failed'')
       | Inr parsed \<Rightarrow>
           (case validate_structure parsed of
              Inr checked \<Rightarrow> fst (evaluateWithLLM_cli E tr vd excerpts) = checked
            | Inl error \<Rightarrow>
                fst (evaluateWithLLM_cli E tr vd excerpts) =
                  rejection (js ''Evaluation failed'')))"
    by (simp add: evaluateWithLLM_server_cases evaluateWithLLM_cli_cases
        evaluateWithLLM_cli_try_def split: sum.split)
  from direct cleaned repaired failed cleanup client show ?thesis
    by blast
qed

text \<open>
  The four kinds of answer on the small corpus: valid JSON is parsed as it is; the
  answer wrapped in prose parses after the cleanup; the answer cut inside a string
  parses after the repair pass; and for \<open>garbage\<close>, with a repair pass that throws,
  all attempts fail.
\<close>

theorem repair_cascade_witness:
  "parse_with_repair providers good_answer = (Inr good_value, []) \<and>
   fst (parse_with_repair providers wrapped_answer) = Inr inner_value \<and>
   fst (parse_with_repair providers_repairing truncated_answer) = Inr repaired_value \<and>
   fst (parse_with_repair providers (js ''garbage'')) = Inl (SyntaxError (js ''Unexpected token'')) \<and>
   brace_cleanup (js ''Sure: '' @ 123 # js ''1'' @ 125 # js '' Done.'') = 123 # js ''1'' @ [125]"
proof -
  have a: "JSON_parse providers good_answer = Inr good_value"
    by (simp add: JSON_parse_providers parse_good_answer)
  have b: "JSON_parse providers wrapped_answer = Inl (SyntaxError (js ''Unexpected token'')) \<and>
      JSON_parse providers (brace_cleanup wrapped_answer) = Inr inner_value"
    by (simp add: JSON_parse_providers parse_wrapped_answer parse_wrapped_inner)
  have c: "JSON_parse providers_repairing truncated_answer =
        Inl (SyntaxError (js ''Unexpected token'')) \<and>
      JSON_parse providers_repairing (brace_cleanup truncated_answer) =
        Inl (SyntaxError (js ''Unexpected token'')) \<and>
      jsonrepair providers_repairing truncated_answer = Inr (truncated_answer @ [34, 125]) \<and>
      JSON_parse providers_repairing (truncated_answer @ [34, 125]) = Inr repaired_value"
  proof -
    have "jsonrepair providers_repairing s = Inr (s @ [34, 125])" for s
      by (simp add: providers_repairing_def js_def)
    moreover have "parse_json (truncated_answer @ [34, 125]) = Some repaired_value"
      using parse_repaired_answer by (simp add: js_def)
    ultimately show ?thesis
      by (simp add: JSON_parse_providers parse_truncated_answer brace_cleanup_truncated_answer)
  qed
  have d: "JSON_parse providers (js ''garbage'') = Inl (SyntaxError (js ''Unexpected token'')) \<and>
      (\<exists>second. JSON_parse providers (brace_cleanup (js ''garbage'')) = Inl second) \<and>
      (case jsonrepair providers (js ''garbage'') of
         Inl third \<Rightarrow> True
       | Inr repaired \<Rightarrow> (\<exists>third. JSON_parse providers repaired = Inl third))"
  proof -
    have "jsonrepair providers s = Inl (Error (js ''Cannot repair''))" for s
      by (simp add: providers_def)
    then show ?thesis
      by (simp add: JSON_parse_providers parse_garbage brace_cleanup_garbage)
  qed
  have e: "123 \<notin> set (js ''Sure: '') \<and> 125 \<notin> set (js '' Done.'')"
    by (simp add: js_def)
  from a repair_cascade [of providers good_answer good_value]
  have first: "parse_with_repair providers good_answer = (Inr good_value, [])"
    by blast
  from b repair_cascade [of providers wrapped_answer inner_value]
  have second: "fst (parse_with_repair providers wrapped_answer) = Inr inner_value"
    by blast
  from c repair_cascade [of providers_repairing truncated_answer repaired_value]
  have third: "fst (parse_with_repair providers_repairing truncated_answer) = Inr repaired_value"
    by blast
  from d repair_cascade [of providers "js ''garbage''" _ _ _ _
      "SyntaxError (js ''Unexpected token'')"]
  have fourth: "fst (parse_with_repair providers (js ''garbage'')) =
      Inl (SyntaxError (js ''Unexpected token''))"
    by blast
  from e repair_cascade [of _ _ _ _ _ _ _ "js ''Sure: ''" "js '' Done.''" "js ''1''"]
  have fifth: "brace_cleanup (js ''Sure: '' @ 123 # js ''1'' @ 125 # js '' Done.'') =
      123 # js ''1'' @ [125]"
    by blast
  from first second third fourth fifth show ?thesis
    by blast
qed

text \<open>
  The claim as stated fails twice. The CLI variant, given the answer wrapped in prose,
  returns the rejection although the text between the braces parses to a value that
  passes the structure check. The server variant, given a null content and so the
  valid JSON text \<open>{}\<close>, parses it at the first attempt and returns the rejection.
\<close>

theorem repair_cascade_not_in_cli:
  "chat_completion providers trend1 video2 [] = Inr (Some wrapped_answer) \<and>
   parse_json (brace_cleanup wrapped_answer) = Some inner_value \<and>
   validate_structure inner_value =
     Inr \<lparr>LLMEvaluation.semantic_relevance = 0.9, intro_support = 0.9, honesty_risk = 0.1,
          allowed = False, titles = None, thumbnails = None, notes = None\<rparr> \<and>
   fst (evaluateWithLLM_cli providers trend1 video2 []) = rejection (js ''Evaluation failed'') \<and>
   chat_completion providers_silent trend1 video1 [] = Inr None \<and>
   content_or_default None = js ''{}'' \<and>
   parse_with_repair providers_silent (js ''{}'') = (Inr (JObj []), []) \<and>
   fst (evaluateWithLLM_server providers_silent trend1 video1 []) =
     rejection (js ''Evaluation failed: Invalid LLM response structure'')"
proof -
  have chat: "chat_completion providers trend1 video2 [] = Inr (Some wrapped_answer)"
      "chat_completion providers_silent trend1 video1 [] = Inr None"
    by (simp_all add: providers_def providers_silent_def video2_def)
  have default: "content_or_default None = js ''{}''"
    by (simp add: content_or_default_def)
  have direct: "parse_with_repair providers_silent (js ''{}'') = (Inr (JObj []), [])"
    by (simp add: parse_with_repair_def JSON_parse_providers parse_empty_object)
  from chat default direct show ?thesis
    by (simp add: parse_wrapped_inner validate_inner_value evaluateWithLLM_cli_video2
        evaluateWithLLM_server_silent)
qed

section \<open>Claim C3: failures become the conservative rejection\<close>



section \<open>Claim C4: the candidate retriever\<close>

text \<open>
  C4. When the embedding of the enriched query is obtained, \<open>getCandidateVideos\<close>
  returns the first three (\<open>TOP_CANDIDATES_PER_TREND\<close>) of the ranked candidates; the
  server does so whenever the chunk table is not empty. The chunk similarities are
  grouped by the video the chunk belongs to. There is exactly one ranked candidate
  for each video identifier that occurs both in the chunk table and in the video
  list. A candidate's aggregate score is the arithmetic mean of the similarities of
  its video's chunks (of which there is at least one), its chunks are the texts of
  the five best of them by similarity, and the ranking is by aggregate score,
  descending. At evaluation time both orchestrators pass the first three
  (\<open>TOP_CHUNKS_FOR_LLM\<close>) of a candidate's chunks to \<open>evaluateWithLLM\<close>.
\<close>

theorem candidate_retriever:
  "(generateEmbedding E (extractBroaderThemes_cli tr) = Inr emb \<longrightarrow>
      getCandidateVideos_cli E d tr allVideos =
        Inr (take 3 (all_candidates E emb (video_chunks d) allVideos))) \<and>
   (generateEmbedding E (extractBroaderThemes_server tr) = Inr emb \<and> video_chunks d \<noteq> [] \<longrightarrow>
      fst (getCandidateVideos_server E d tr allVideos) =
        Inr (take 3 (all_candidates E emb (video_chunks d) allVideos))) \<and>
   group_by_video (score_chunks E emb allChunks) = groups_of (score_chunks E emb allChunks) \<and>
   distinct (map (\<lambda>c. Video.video_id (video c)) (all_candidates E emb allChunks allVideos)) \<and>
   set (map (\<lambda>c. Video.video_id (video c)) (all_candidates E emb allChunks allVideos)) =
     VideoChunk.video_id ` set allChunks \<inter> Video.video_id ` set allVideos \<and>
   (\<forall>c \<in> set (all_candidates E emb allChunks allVideos).
      video c \<in> set allVideos \<and>
      own_chunks allChunks (video c) \<noteq> [] \<and>
      avgSimilarity c =
        mean (map (\<lambda>chunk. cosineSimilarity E emb (embedding chunk))
                (own_chunks allChunks (video c))) \<and>
      topChunks c =
        map fst (take 5 (sort_desc snd
          (map (\<lambda>chunk. (VideoChunk.chunk_text chunk,
                          cosineSimilarity E emb (embedding chunk)))
             (own_chunks allChunks (video c))))) \<and>
      length (topChunks c) \<le> 5) \<and>
   sorted_wrt (\<lambda>a b. avgSimilarity b \<le> avgSimilarity a)
     (take 3 (all_candidates E emb allChunks allVideos)) \<and>
   (\<forall>kept \<in> set (take 3 (all_candidates E emb allChunks allVideos)).
    \<forall>cut \<in> set (drop 3 (all_candidates E emb allChunks allVideos)).
      avgSimilarity cut \<le> avgSimilarity kept) \<and>
   length (take 3 (all_candidates E emb allChunks allVideos)) \<le> 3 \<and>
   requests (evaluate_candidate_cli E tr st c) =
     requests st @ [(tr, video c, take 3 (topChunks c))] \<and>
   requests (fst (evaluate_candidate_server E tr (sst, matched) c)) =
     requests sst @ [(tr, video c, take 3 (topChunks c))] \<and>
   evaluation_cli E (request_of tr c) =
     fst (evaluateWithLLM_cli E tr (video c) (take 3 (topChunks c))) \<and>
   evaluation_server E (request_of tr c) =
     fst (evaluateWithLLM_server E tr (video c) (take 3 (topChunks c)))"
proof -
  let ?all = "all_candidates E emb allChunks allVideos"
  have cli: "generateEmbedding E (extractBroaderThemes_cli tr) = Inr emb \<longrightarrow>
      getCandidateVideos_cli E d tr allVideos =
        Inr (take 3 (all_candidates E emb (video_chunks d) allVideos))"
    by (simp add: getCandidateVideos_cli_def getAllChunks_def TOP_CANDIDATES_PER_TREND_def)
  have server:
    "generateEmbedding E (extractBroaderThemes_server tr) = Inr emb \<and> video_chunks d \<noteq> [] \<longrightarrow>
      fst (getCandidateVideos_server E d tr allVideos) =
        Inr (take 3 (all_candidates E emb (video_chunks d) allVideos))"
    by (simp add: getCandidateVideos_server_def getAllChunks_def TOP_CANDIDATES_PER_TREND_def
        Let_def)
  have members: "\<forall>c \<in> set ?all.
      video c \<in> set allVideos \<and>
      own_chunks allChunks (video c) \<noteq> [] \<and>
      avgSimilarity c =
        mean (map (\<lambda>chunk. cosineSimilarity E emb (embedding chunk))
                (own_chunks allChunks (video c))) \<and>
      topChunks c =
        map fst (take 5 (sort_desc snd
          (map (\<lambda>chunk. (VideoChunk.chunk_text chunk,
                          cosineSimilarity E emb (embedding chunk)))
             (own_chunks allChunks (video c))))) \<and>
      length (topChunks c) \<le> 5"
  proof
    fix c
    assume c: "c \<in> set ?all"
    from all_candidates_member [OF c]
    have "length (topChunks c) \<le> 5"
      by simp
    with all_candidates_member [OF c] show "video c \<in> set allVideos \<and>
      own_chunks allChunks (video c) \<noteq> [] \<and>
      avgSimilarity c =
        mean (map (\<lambda>chunk. cosineSimilarity E emb (embedding chunk))
                (own_chunks allChunks (video c))) \<and>
      topChunks c =
        map fst (take 5 (sort_desc snd
          (map (\<lambda>chunk. (VideoChunk.chunk_text chunk,
                          cosineSimilarity E emb (embedding chunk)))
             (own_chunks allChunks (video c))))) \<and>
      length (topChunks c) \<le> 5"
      by blast
  qed
  have sorted_all: "sorted_wrt (\<lambda>a b. avgSimilarity b \<le> avgSimilarity a) ?all"
    by (rule all_candidates_sorted)
  then have sorted_top: "sorted_wrt (\<lambda>a b. avgSimilarity b \<le> avgSimilarity a) (take 3 ?all)"
    by (rule sorted_wrt_take)
  from sorted_all have "sorted_wrt (\<lambda>a b. avgSimilarity b \<le> avgSimilarity a)
      (take 3 ?all @ drop 3 ?all)"
    by simp
  then have cut: "\<forall>kept \<in> set (take 3 ?all). \<forall>cut \<in> set (drop 3 ?all).
      avgSimilarity cut \<le> avgSimilarity kept"
    unfolding sorted_wrt_append by blast
  have sent: "requests (evaluate_candidate_cli E tr st c) =
        requests st @ [(tr, video c, take 3 (topChunks c))]"
      "requests (fst (evaluate_candidate_server E tr (sst, matched) c)) =
        requests sst @ [(tr, video c, take 3 (topChunks c))]"
      "evaluation_cli E (request_of tr c) =
        fst (evaluateWithLLM_cli E tr (video c) (take 3 (topChunks c)))"
      "evaluation_server E (request_of tr c) =
        fst (evaluateWithLLM_server E tr (video c) (take 3 (topChunks c)))"
    by (simp_all add: evaluate_candidate_cli_requests evaluate_candidate_server_requests
        request_of_def TOP_CHUNKS_FOR_LLM_def evaluation_cli_def evaluation_server_def)
  have short: "length (take 3 ?all) \<le> 3"
    by simp
  from cli server group_by_video_groups_of [of "score_chunks E emb allChunks"]
    all_candidates_ids [of E emb allChunks allVideos] members sorted_top cut short sent
  show ?thesis
    by (intro conjI) blast+
qed

text \<open>
  On the small corpus the first video has two chunks, with similarities 0.8 and 1:
  its aggregate score is their mean 0.9 (the maximum would be 1), its chunks are
  returned best first, it is ranked before the second video (0.3), the chunk whose
  video is missing yields no candidate, and its two chunks are what is sent.
\<close>

theorem candidate_retriever_witness:
  "generateEmbedding providers (extractBroaderThemes_cli trend1) = Inr [1] \<and>
   getCandidateVideos_cli providers corpus trend1 [video1, video2] =
     Inr [candidate1, candidate2] \<and>
   candidate1 \<in> set (all_candidates providers [1] (video_chunks corpus) [video1, video2]) \<and>
   map (\<lambda>chunk. cosineSimilarity providers [1] (embedding chunk))
     (own_chunks (video_chunks corpus) (video candidate1)) = [0.8, 1] \<and>
   avgSimilarity candidate1 = mean [0.8, 1] \<and> mean [0.8, 1] = 0.9 \<and>
   topChunks candidate1 = [''jobs'', ''careers''] \<and>
   set (map (\<lambda>c. Video.video_id (video c))
          (all_candidates providers [1] (video_chunks corpus) [video1, video2])) = {''v1'', ''v2''} \<and>
   requests (evaluate_candidate_cli providers trend1 fresh candidate1) =
     [(trend1, video1, [''jobs'', ''careers''])]"
proof -
  note retriever = candidate_retriever [of providers trend1 "[1]" corpus "[video1, video2]"
      "video_chunks corpus" fresh candidate1 fresh_server "[]"]
  have embed: "generateEmbedding providers (extractBroaderThemes_cli trend1) = Inr [1]"
    by (simp add: providers_def)
  have mem: "candidate1 \<in> set (all_candidates providers [1] (video_chunks corpus) [video1, video2])"
    by (simp add: all_candidates_example)
  have own: "map (\<lambda>chunk. cosineSimilarity providers [1] (embedding chunk))
      (own_chunks (video_chunks corpus) (video candidate1)) = [0.8, 1]"
    by (simp add: own_chunks_def corpus_def candidate1_def video1_def providers_def)
  have entries: "map (\<lambda>chunk. (VideoChunk.chunk_text chunk,
        cosineSimilarity providers [1] (embedding chunk)))
      (own_chunks (video_chunks corpus) (video candidate1)) = [(''careers'', 0.8), (''jobs'', 1)]"
    by (simp add: own_chunks_def corpus_def candidate1_def video1_def providers_def)
  from retriever embed
  have returned: "getCandidateVideos_cli providers corpus trend1 [video1, video2] =
      Inr (take 3 (all_candidates providers [1] (video_chunks corpus) [video1, video2]))"
    by blast
  from retriever mem
  have "avgSimilarity candidate1 =
      mean (map (\<lambda>chunk. cosineSimilarity providers [1] (embedding chunk))
              (own_chunks (video_chunks corpus) (video candidate1))) \<and>
    topChunks candidate1 =
      map fst (take 5 (sort_desc snd
        (map (\<lambda>chunk. (VideoChunk.chunk_text chunk,
                        cosineSimilarity providers [1] (embedding chunk)))
           (own_chunks (video_chunks corpus) (video candidate1)))))"
    by blast
  then have fields: "avgSimilarity candidate1 = mean [0.8, 1]"
      "topChunks candidate1 = [''jobs'', ''careers'']"
    by (simp_all add: own entries sort_desc_def)
  from retriever
  have "set (map (\<lambda>c. Video.video_id (video c))
        (all_candidates providers [1] (video_chunks corpus) [video1, video2])) =
      VideoChunk.video_id ` set (video_chunks corpus) \<inter> Video.video_id ` set [video1, video2]"
    by blast
  then have ids: "set (map (\<lambda>c. Video.video_id (video c))
        (all_candidates providers [1] (video_chunks corpus) [video1, video2])) = {''v1'', ''v2''}"
    by (simp add: corpus_def video1_def video2_def)
  from retriever
  have "requests (evaluate_candidate_cli providers trend1 fresh candidate1) =
      requests fresh @ [(trend1, video candidate1, take 3 (topChunks candidate1))]"
    by blast
  then have sent: "requests (evaluate_candidate_cli providers trend1 fresh candidate1) =
      [(trend1, video1, [''jobs'', ''careers''])]"
    by (simp add: fresh_def candidate_fields)
  have m: "mean [0.8, 1] = 0.9"
    by (simp add: mean_def)
  from embed returned mem own fields m ids sent show ?thesis
    by (simp add: all_candidates_example)
qed

section \<open>Claim C5: the counters of a run\<close>

text \<open>
  C5. In both orchestrators one loop iteration raises \<open>totalEvaluations\<close> by exactly
  one and \<open>acceptedCount\<close> by at most one. At the end of every run
  \<open>totalEvaluations\<close> is the number of evaluations issued, \<open>acceptedCount\<close> the number
  of those the gate accepted, so \<open>acceptedCount\<close> never exceeds \<open>totalEvaluations\<close>.
  The summary reports the rejected count as the difference of the two counters: a CLI
  run that reaches its end prints the three numbers in its last five lines, and when
  the last event of the server is the \<open>complete\<close> event, it carries the two counters
  and their difference; in both, accepted plus rejected is the total.
\<close>

theorem counter_invariant:
  "(totalEvaluations (evaluate_candidate_cli E tr st0 c) = totalEvaluations st0 + 1 \<and>
    acceptedCount st0 \<le> acceptedCount (evaluate_candidate_cli E tr st0 c) \<and>
    acceptedCount (evaluate_candidate_cli E tr st0 c) \<le> acceptedCount st0 + 1) \<and>
   (totalEvaluations (fst (evaluate_candidate_server E tr (sst0, matched) c)) =
      totalEvaluations sst0 + 1 \<and>
    acceptedCount sst0 \<le> acceptedCount (fst (evaluate_candidate_server E tr (sst0, matched) c)) \<and>
    acceptedCount (fst (evaluate_candidate_server E tr (sst0, matched) c)) \<le>
      acceptedCount sst0 + 1) \<and>
   (let st = fst (matchTrendsToVideos E d)
    in totalEvaluations st = length (requests st) \<and>
       acceptedCount st =
         length (filter (\<lambda>q. accepted (evaluation_cli E q)) (requests st)) \<and>
       acceptedCount st \<le> totalEvaluations st \<and>
       (trends d \<noteq> [] \<and> videos d \<noteq> [] \<and> snd (matchTrendsToVideos E d) = None \<longrightarrow>
          drop (length (console st) - 5) (console st) =
            [LogSummary,
             LogTotalEvaluations (totalEvaluations st),
             LogAcceptedTotal (acceptedCount st),
             LogRejectedTotal (int (totalEvaluations st) - int (acceptedCount st)),
             LogMatchingComplete] \<and>
          int (acceptedCount st) + (int (totalEvaluations st) - int (acceptedCount st)) =
            int (totalEvaluations st))) \<and>
   (let st = fst (match_selected E d body)
    in totalEvaluations st = length (requests st) \<and>
       acceptedCount st =
         length (filter (\<lambda>q. accepted (evaluation_server E q)) (requests st)) \<and>
       acceptedCount st \<le> totalEvaluations st \<and>
       (\<forall>total acc rejected results.
          body \<noteq> None \<and> body \<noteq> Some [] \<and>
          last (events st) = EvComplete total acc rejected results \<longrightarrow>
            total = totalEvaluations st \<and> acc = acceptedCount st \<and>
            rejected = int total - int acc \<and> int acc + rejected = int total))"
proof -
  have step_cli:
    "totalEvaluations (evaluate_candidate_cli E tr st0 c) = totalEvaluations st0 + 1 \<and>
     acceptedCount st0 \<le> acceptedCount (evaluate_candidate_cli E tr st0 c) \<and>
     acceptedCount (evaluate_candidate_cli E tr st0 c) \<le> acceptedCount st0 + 1"
    by (simp add: evaluate_candidate_cli_total evaluate_candidate_cli_accepted)
  have step_server:
    "totalEvaluations (fst (evaluate_candidate_server E tr (sst0, matched) c)) =
       totalEvaluations sst0 + 1 \<and>
     acceptedCount sst0 \<le> acceptedCount (fst (evaluate_candidate_server E tr (sst0, matched) c)) \<and>
     acceptedCount (fst (evaluate_candidate_server E tr (sst0, matched) c)) \<le>
       acceptedCount sst0 + 1"
    by (simp add: evaluate_candidate_server_total evaluate_candidate_server_accepted)
  define st where "st = fst (matchTrendsToVideos E d)"
  define sst where "sst = fst (match_selected E d body)"
  have counts: "totalEvaluations st = length (requests st)"
      "acceptedCount st = length (filter (\<lambda>q. accepted (evaluation_cli E q)) (requests st))"
    using matchTrendsToVideos_counts [of E d] by (simp_all add: st_def)
  then have le: "acceptedCount st \<le> totalEvaluations st"
    by simp
  have summary: "drop (length (console st) - 5) (console st) =
      [LogSummary,
       LogTotalEvaluations (totalEvaluations st),
       LogAcceptedTotal (acceptedCount st),
       LogRejectedTotal (int (totalEvaluations st) - int (acceptedCount st)),
       LogMatchingComplete]"
    if "trends d \<noteq> []" "videos d \<noteq> []" "snd (matchTrendsToVideos E d) = None"
    using matchTrendsToVideos_summary [OF that] by (simp add: st_def summary_lines_def)
  have scounts: "totalEvaluations sst = length (requests sst)"
      "acceptedCount sst = length (filter (\<lambda>q. accepted (evaluation_server E q)) (requests sst))"
    using match_selected_counts [of E d body] by (simp_all add: sst_def)
  then have sle: "acceptedCount sst \<le> totalEvaluations sst"
    by simp
  have complete: "total = totalEvaluations sst \<and> acc = acceptedCount sst \<and>
      rejected = int total - int acc \<and> int acc + rejected = int total"
    if "body \<noteq> None" "body \<noteq> Some []"
      "last (events sst) = EvComplete total acc rejected results"
    for total acc rejected results
  proof -
    from that obtain trendIds where ids: "body = Some trendIds" "trendIds \<noteq> []"
      by auto
    from match_selected_complete [OF ids(2), of E d] that(3) show ?thesis
      by (auto simp: sst_def ids complete_event_def split: option.splits)
  qed
  from step_cli step_server counts le summary scounts sle complete show ?thesis
    unfolding Let_def st_def [symmetric] sst_def [symmetric] by (intro conjI allI impI) auto
qed

text \<open>
  On the small corpus both orchestrators issue two evaluations and accept one; the CLI
  ends with the summary lines 2, 1, 1, and the server (asked for a stale identifier
  and the trend) ends with the \<open>complete\<close> event carrying 2, 1, 1.
\<close>

theorem counter_invariant_witness:
  "trends corpus \<noteq> [] \<and> videos corpus \<noteq> [] \<and>
   snd (matchTrendsToVideos providers corpus) = None \<and>
   totalEvaluations (fst (matchTrendsToVideos providers corpus)) = 2 \<and>
   acceptedCount (fst (matchTrendsToVideos providers corpus)) = 1 \<and>
   drop (length (console (fst (matchTrendsToVideos providers corpus))) - 5)
     (console (fst (matchTrendsToVideos providers corpus))) =
     [LogSummary, LogTotalEvaluations 2, LogAcceptedTotal 1, LogRejectedTotal 1,
      LogMatchingComplete] \<and>
   last (events (fst (match_selected providers corpus (Some [''stale'', ''t1''])))) =
     EvComplete 2 1 1 [result1] \<and>
   int 1 + 1 = int 2"
proof -
  have run: "trends corpus \<noteq> [] \<and> videos corpus \<noteq> [] \<and>
      snd (matchTrendsToVideos providers corpus) = None"
    by (simp add: corpus_tables cli_run_example)
  have counters: "totalEvaluations (fst (matchTrendsToVideos providers corpus)) = 2"
    "acceptedCount (fst (matchTrendsToVideos providers corpus)) = 1"
    by (simp_all add: cli_run_example)
  have final: "last (events (fst (match_selected providers corpus (Some [''stale'', ''t1''])))) =
      EvComplete 2 1 1 [result1]"
    by (simp add: server_run_example)
  note inv = counter_invariant [of providers trend1 fresh candidate1 fresh_server "[]" corpus
      "Some [''stale'', ''t1'']", unfolded Let_def]
  from inv run
  have "drop (length (console (fst (matchTrendsToVideos providers corpus))) - 5)
      (console (fst (matchTrendsToVideos providers corpus))) =
      [LogSummary,
       LogTotalEvaluations (totalEvaluations (fst (matchTrendsToVideos providers corpus))),
       LogAcceptedTotal (acceptedCount (fst (matchTrendsToVideos providers corpus))),
       LogRejectedTotal (int (totalEvaluations (fst (matchTrendsToVideos providers corpus))) -
                         int (acceptedCount (fst (matchTrendsToVideos providers corpus)))),
       LogMatchingComplete]"
    by blast
  then have summary: "drop (length (console (fst (matchTrendsToVideos providers corpus))) - 5)
      (console (fst (matchTrendsToVideos providers corpus))) =
      [LogSummary, LogTotalEvaluations 2, LogAcceptedTotal 1, LogRejectedTotal 1,
       LogMatchingComplete]"
    by (simp only: counters) simp
  have "Some [''stale'', ''t1''] \<noteq> None \<and> Some [''stale'', ''t1''] \<noteq> Some ([] :: string list)"
    by simp
  with inv final have "int 1 + 1 = int 2"
    by blast
  with run counters summary final show ?thesis
    by simp
qed

section \<open>Claim C6: a run replaces the snapshot\<close>



section \<open>Claim C7: an empty chunk table\<close>

text \<open>
  C7. When the chunk table is empty (so the embedding call that precedes reading it
  has returned), \<open>getCandidateVideos\<close> returns the empty list: the CLI by running its
  loops over nothing, the server by its explicit check, which also writes its two
  error lines to the console. Nothing is divided by zero anywhere: grouping creates a
  group only together with its first score, so no group has an empty score list, and
  no chunks give no groups. Processing a trend then reports zero candidates (the
  CLI's \<open>Found\<close> line, the server's \<open>candidates\<close> event), issues no evaluation and
  leaves counters, requests and database as they were.
\<close>

theorem empty_corpus:
  "(video_chunks d = [] \<and> generateEmbedding E (extractBroaderThemes_cli tr) = Inr emb \<longrightarrow>
      getCandidateVideos_cli E d tr allVideos = Inr []) \<and>
   (video_chunks d = [] \<and> generateEmbedding E (extractBroaderThemes_server tr) = Inr emb \<longrightarrow>
      getCandidateVideos_server E d tr allVideos =
        (Inr [],
         [LogVectorSearchDebug, LogTotalVideos (length allVideos), LogTotalChunks 0,
          LogTrendQuery (substring (Trend.title tr) 0 80),
          LogNoChunksError, LogNoChunksHint])) \<and>
   group_by_video [] = [] \<and>
   (\<forall>entry \<in> set (group_by_video chunkScores). VideoData.scores (snd entry) \<noteq> []) \<and>
   (video_chunks (db st) = [] \<and>
    generateEmbedding E (extractBroaderThemes_cli tr) = Inr emb \<longrightarrow>
      process_trend_cli E allVideos st tr =
        (st\<lparr>console := console st @ [LogTrend (Trend.title tr), LogFound 0, LogBlank]\<rparr>,
         None)) \<and>
   (video_chunks (db sst) = [] \<and> getTrend (db sst) trendId = Some tr \<and>
    generateEmbedding E (extractBroaderThemes_server tr) = Inr emb \<longrightarrow>
      snd (process_trend_server E allVideos sst trendId) = None \<and>
      last (events (fst (process_trend_server E allVideos sst trendId))) = EvCandidates 0 \<and>
      totalEvaluations (fst (process_trend_server E allVideos sst trendId)) =
        totalEvaluations sst \<and>
      acceptedCount (fst (process_trend_server E allVideos sst trendId)) = acceptedCount sst \<and>
      requests (fst (process_trend_server E allVideos sst trendId)) = requests sst \<and>
      db (fst (process_trend_server E allVideos sst trendId)) = db sst)"
proof -
  have none: "all_candidates E emb [] allVideos = []"
    by (simp add: all_candidates_def score_chunks_def group_by_video_def sort_desc_def)
  have cli: "getCandidateVideos_cli E d tr allVideos = Inr []"
    if "video_chunks d = []" "generateEmbedding E (extractBroaderThemes_cli tr) = Inr emb"
    for d
    using that by (simp add: getCandidateVideos_cli_def getAllChunks_def none)
  have server: "getCandidateVideos_server E d tr allVideos =
        (Inr [],
         [LogVectorSearchDebug, LogTotalVideos (length allVideos), LogTotalChunks 0,
          LogTrendQuery (substring (Trend.title tr) 0 80),
          LogNoChunksError, LogNoChunksHint])"
    if "video_chunks d = []" "generateEmbedding E (extractBroaderThemes_server tr) = Inr emb"
    for d
    using that by (simp add: getCandidateVideos_server_def getAllChunks_def)
  have groups: "group_by_video [] = []"
    by (simp add: group_by_video_def)
  have trend_cli: "process_trend_cli E allVideos st tr =
        (st\<lparr>console := console st @ [LogTrend (Trend.title tr), LogFound 0, LogBlank]\<rparr>,
         None)"
    if "video_chunks (db st) = []" "generateEmbedding E (extractBroaderThemes_cli tr) = Inr emb"
    using cli [of "db st"] that by (simp add: process_trend_cli_def Let_def)
  have trend_server: "snd (process_trend_server E allVideos sst trendId) = None \<and>
      last (events (fst (process_trend_server E allVideos sst trendId))) = EvCandidates 0 \<and>
      totalEvaluations (fst (process_trend_server E allVideos sst trendId)) =
        totalEvaluations sst \<and>
      acceptedCount (fst (process_trend_server E allVideos sst trendId)) = acceptedCount sst \<and>
      requests (fst (process_trend_server E allVideos sst trendId)) = requests sst \<and>
      db (fst (process_trend_server E allVideos sst trendId)) = db sst"
    if "video_chunks (db sst) = []" "getTrend (db sst) trendId = Some tr"
      "generateEmbedding E (extractBroaderThemes_server tr) = Inr emb"
    using server [of "db sst"] that
    by (simp add: process_trend_server_def Let_def split: sum.split)
  from cli [of d] server [of d] groups scores_nonempty [of _ chunkScores] trend_cli trend_server
  show ?thesis
    by (intro conjI impI ballI) blast+
qed

text \<open>
  On the corpus without chunks: both functions return no candidate, the CLI prints
  \<open>Found 0\<close> for the trend, and the server's last event for it reports zero
  candidates, with no evaluation counted.
\<close>

theorem empty_corpus_witness:
  "video_chunks bare_corpus = [] \<and>
   generateEmbedding providers (extractBroaderThemes_cli trend1) = Inr [1] \<and>
   getTrend bare_corpus ''t1'' = Some trend1 \<and>
   getCandidateVideos_cli providers bare_corpus trend1 [video1, video2] = Inr [] \<and>
   fst (getCandidateVideos_server providers bare_corpus trend1 [video1, video2]) = Inr [] \<and>
   process_trend_cli providers [video1, video2] (fresh\<lparr>db := bare_corpus\<rparr>) trend1 =
     (fresh\<lparr>db := bare_corpus,
            console := [LogTrend (Trend.title trend1), LogFound 0, LogBlank]\<rparr>, None) \<and>
   last (events (fst (process_trend_server providers [video1, video2]
           (fresh_server\<lparr>db := bare_corpus\<rparr>) ''t1''))) = EvCandidates 0 \<and>
   totalEvaluations (fst (process_trend_server providers [video1, video2]
           (fresh_server\<lparr>db := bare_corpus\<rparr>) ''t1'')) = 0"
proof -
  have empty: "video_chunks bare_corpus = []"
      "video_chunks (db (fresh\<lparr>db := bare_corpus\<rparr>)) = []"
      "video_chunks (db (fresh_server\<lparr>db := bare_corpus\<rparr>)) = []"
    by (simp_all add: bare_corpus_def)
  have embed: "generateEmbedding providers (extractBroaderThemes_cli trend1) = Inr [1]"
      "generateEmbedding providers (extractBroaderThemes_server trend1) = Inr [1]"
    by (simp_all add: providers_def)
  have found: "getTrend bare_corpus ''t1'' = Some trend1"
      "getTrend (db (fresh_server\<lparr>db := bare_corpus\<rparr>)) ''t1'' = Some trend1"
    by (simp_all add: getTrend_def bare_corpus_def corpus_def trend1_def)
  note e = empty_corpus [of bare_corpus providers trend1 "[1]" "[video1, video2]" "[]"
      "fresh\<lparr>db := bare_corpus\<rparr>" "fresh_server\<lparr>db := bare_corpus\<rparr>" "''t1''"]
  from e empty embed
  have cli: "getCandidateVideos_cli providers bare_corpus trend1 [video1, video2] = Inr []"
    by blast
  from e empty embed
  have "getCandidateVideos_server providers bare_corpus trend1 [video1, video2] =
        (Inr [],
         [LogVectorSearchDebug, LogTotalVideos (length [video1, video2]), LogTotalChunks 0,
          LogTrendQuery (substring (Trend.title trend1) 0 80),
          LogNoChunksError, LogNoChunksHint])"
    by blast
  then have server:
    "fst (getCandidateVideos_server providers bare_corpus trend1 [video1, video2]) = Inr []"
    by simp
  from e empty embed
  have "process_trend_cli providers [video1, video2] (fresh\<lparr>db := bare_corpus\<rparr>) trend1 =
      ((fresh\<lparr>db := bare_corpus\<rparr>)\<lparr>console := console (fresh\<lparr>db := bare_corpus\<rparr>) @
          [LogTrend (Trend.title trend1), LogFound 0, LogBlank]\<rparr>, None)"
    by blast
  then have trend_cli:
    "process_trend_cli providers [video1, video2] (fresh\<lparr>db := bare_corpus\<rparr>) trend1 =
     (fresh\<lparr>db := bare_corpus,
            console := [LogTrend (Trend.title trend1), LogFound 0, LogBlank]\<rparr>, None)"
    by (simp add: fresh_def)
  from e empty embed found
  have "last (events (fst (process_trend_server providers [video1, video2]
           (fresh_server\<lparr>db := bare_corpus\<rparr>) ''t1''))) = EvCandidates 0 \<and>
      totalEvaluations (fst (process_trend_server providers [video1, video2]
           (fresh_server\<lparr>db := bare_corpus\<rparr>) ''t1'')) =
        totalEvaluations (fresh_server\<lparr>db := bare_corpus\<rparr>)"
    by blast
  then have trend_server:
    "last (events (fst (process_trend_server providers [video1, video2]
           (fresh_server\<lparr>db := bare_corpus\<rparr>) ''t1''))) = EvCandidates 0"
    "totalEvaluations (fst (process_trend_server providers [video1, video2]
           (fresh_server\<lparr>db := bare_corpus\<rparr>) ''t1'')) = 0"
    by (simp_all add: fresh_server_def)
  from empty embed found cli server trend_cli trend_server show ?thesis
    by simp
qed

section \<open>Claim C8: rows refer to the corpus, missing records are skipped\<close>

text \<open>
  C8, as amended. After a run that enters its loop, every row of the
  \<open>recommendations\<close> table names a trend of the \<open>trends\<close> table and a video of the
  \<open>videos\<close> table. A group of chunk scores whose video identifier matches no video
  yields no candidate, so every candidate's video is one of the videos read at the
  start of the run. In the server, an identifier for which \<open>getTrend\<close> finds no row
  is skipped without any trace: the state is unchanged, console and events included,
  and the loop goes on with the remaining identifiers.
\<close>

theorem skip_missing_records:
  "(trends d \<noteq> [] \<and> videos d \<noteq> [] \<longrightarrow>
      references_ok (db (fst (matchTrendsToVideos E d)))) \<and>
   (trendIds \<noteq> [] \<longrightarrow> references_ok (db (fst (match_selected E d (Some trendIds))))) \<and>
   (\<not> (\<exists>v \<in> set allVideos. Video.video_id v = fst entry) \<longrightarrow>
      build_candidate allVideos entry = None) \<and>
   (\<forall>c \<in> set (all_candidates E emb allChunks allVideos). video c \<in> set allVideos) \<and>
   (getTrend (db sst) trendId = None \<longrightarrow>
      process_trend_server E allVideos sst trendId = (sst, None) \<and>
      trends_loop_server E allVideos sst (trendId # rest) =
        trends_loop_server E allVideos sst rest)"
proof -
  have dropped: "build_candidate allVideos entry = None"
    if "\<not> (\<exists>v \<in> set allVideos. Video.video_id v = fst entry)"
    using that by (auto simp: build_candidate_def find_None_iff split: option.splits)
  have skipped: "process_trend_server E allVideos sst trendId = (sst, None) \<and>
      trends_loop_server E allVideos sst (trendId # rest) =
        trends_loop_server E allVideos sst rest"
    if "getTrend (db sst) trendId = None"
    using that by (simp add: process_trend_server_def)
  from matchTrendsToVideos_references [of d E] match_selected_references [of trendIds E d]
    dropped all_candidates_video [of _ E emb allChunks allVideos] skipped
  show ?thesis
    by blast
qed

text \<open>
  On the small corpus: the server, asked for a stale identifier and for the trend,
  skips the first and stores one row, which names the trend and the first video; the
  chunk of the missing video \<open>gone\<close> gives no candidate.
\<close>

theorem skip_missing_records_witness:
  "getTrend (db fresh_server) ''stale'' = None \<and>
   process_trend_server providers [video1, video2] fresh_server ''stale'' = (fresh_server, None) \<and>
   references_ok (db (fst (match_selected providers corpus (Some [''stale'', ''t1''])))) \<and>
   recommendations (db (fst (match_selected providers corpus (Some [''stale'', ''t1''])))) =
     [row1] \<and>
   rec_key row1 = (''t1'', ''v1'') \<and>
   build_candidate [video1, video2] (''gone'', \<lparr>VideoData.scores = [1], chunks = [(''lost'', 1)]\<rparr>) =
     None"
proof -
  have stale: "getTrend (db fresh_server) ''stale'' = None"
    by (simp add: fresh_server_def getTrend_corpus)
  have ids: "[''stale'', ''t1''] \<noteq> ([] :: string list)"
    by simp
  have gone: "\<not> (\<exists>v \<in> set [video1, video2].
      Video.video_id v = fst (''gone'', \<lparr>VideoData.scores = [1], chunks = [(''lost'', 1)]\<rparr>))"
    by (simp add: video1_def video2_def)
  note skip = skip_missing_records [where d = corpus and trendIds = "[''stale'', ''t1'']"
      and E = providers and allVideos = "[video1, video2]"
      and entry = "(''gone'', \<lparr>VideoData.scores = [1], chunks = [(''lost'', 1)]\<rparr>)"
      and sst = fresh_server and trendId = "''stale''"]
  from skip stale
  have skipped: "process_trend_server providers [video1, video2] fresh_server ''stale'' =
      (fresh_server, None)"
    by blast
  from skip ids
  have refs: "references_ok (db (fst (match_selected providers corpus (Some [''stale'', ''t1'']))))"
    by blast
  from skip gone
  have dropped: "build_candidate [video1, video2]
      (''gone'', \<lparr>VideoData.scores = [1], chunks = [(''lost'', 1)]\<rparr>) = None"
    by blast
  have rows: "recommendations (db (fst (match_selected providers corpus
      (Some [''stale'', ''t1''])))) = [row1]"
    by (simp add: server_run_example insertRecommendation_rows corpus_tables)
  have key: "rec_key row1 = (''t1'', ''v1'')"
    by (simp add: rec_key_def row1_def make_recommendation_def trend1_def candidate1_def
        video1_def)
  from stale skipped refs rows key dropped show ?thesis
    by simp
qed

text \<open>
  The claim as stated has the skip leave a log. It leaves none: the server's run for
  a stale identifier and the trend writes the same console lines and events as the
  run for the trend alone would, apart from the count in the \<open>start\<close> event, and
  skipping the stale identifier from a fresh state writes nothing at all.
\<close>

theorem skip_leaves_no_log:
  "getTrend corpus ''stale'' = None \<and>
   console (fst (process_trend_server providers [video1, video2] fresh_server ''stale'')) = [] \<and>
   events (fst (process_trend_server providers [video1, video2] fresh_server ''stale'')) = [] \<and>
   console (fst (match_selected providers corpus (Some [''stale'', ''t1'']))) =
     console (fst (match_selected providers corpus (Some [''t1'']))) \<and>
   tl (events (fst (match_selected providers corpus (Some [''stale'', ''t1''])))) =
     tl (events (fst (match_selected providers corpus (Some [''t1'']))))"
proof -
  have stale: "getTrend (db fresh_server) ''stale'' = None"
    by (simp add: fresh_server_def getTrend_corpus)
  then have skipped: "process_trend_server providers [video1, video2] fresh_server ''stale'' =
      (fresh_server, None)"
    by (simp add: process_trend_server_def)
  have two: "console (fst (match_selected providers corpus (Some [''stale'', ''t1'']))) =
      [LogDatabasePath, LogVectorSearchDebug, LogTotalVideos 2, LogTotalChunks 4,
       LogTrendQuery ''AI layoffs'', LogCandidatesTotal 2, LogTopScores [0.9, 0.3],
       LogReturning 2, LogJsonParseError (js ''Unexpected token''),
       LogRawResponse (substring wrapped_answer 0 500), LogBraceCleanupOk]"
    "tl (events (fst (match_selected providers corpus (Some [''stale'', ''t1''])))) =
      [EvTrend (Trend.title trend1), EvYoutube Fetching, EvYoutube Unavailable,
       EvCandidates 2, EvAccepted (title_current video1) (0.8, 0.8, 0.1),
       EvRejected (title_current video2), EvComplete 2 1 1 [result1]]"
    by (simp_all add: server_run_example)
  have one: "console (fst (match_selected providers corpus (Some [''t1'']))) =
      [LogDatabasePath, LogVectorSearchDebug, LogTotalVideos 2, LogTotalChunks 4,
       LogTrendQuery ''AI layoffs'', LogCandidatesTotal 2, LogTopScores [0.9, 0.3],
       LogReturning 2, LogJsonParseError (js ''Unexpected token''),
       LogRawResponse (substring wrapped_answer 0 500), LogBraceCleanupOk]"
    "tl (events (fst (match_selected providers corpus (Some [''t1''])))) =
      [EvTrend (Trend.title trend1), EvYoutube Fetching, EvYoutube Unavailable,
       EvCandidates 2, EvAccepted (title_current video1) (0.8, 0.8, 0.1),
       EvRejected (title_current video2), EvComplete 2 1 1 [result1]]"
  proof -
    have e1: "evaluateWithLLM_server providers tr video1 excerpts = (good_evaluation, [])"
      for tr excerpts
      by (simp add: evaluateWithLLM_server_video1 good_evaluation_def)
    have fields: "LLMEvaluation.semantic_relevance good_evaluation = 0.8"
      "LLMEvaluation.intro_support good_evaluation = 0.8"
      "LLMEvaluation.honesty_risk good_evaluation = 0.1"
      "LLMEvaluation.titles good_evaluation = Some (JArr [JStr (js ''A'')])"
      "LLMEvaluation.thumbnails good_evaluation = Some (JArr [JStr (js ''B'')])"
      "LLMEvaluation.notes good_evaluation = Some (JStr (js ''ok''))"
      by (simp_all add: good_evaluation_def)
    have no: "\<not> accepted \<lparr>LLMEvaluation.semantic_relevance = 0.9, intro_support = 0.9,
        honesty_risk = 0.1, allowed = False, titles = None, thumbnails = None, notes = None\<rparr>"
      by (simp add: accepted_def)
    have yt: "getYouTubeTitleSuggestions providers q = Inr []" for q
      by (simp add: providers_def)
    have run1: "match_selected providers corpus (Some [''t1'']) =
     (\<lparr>db = insertRecommendation corpus row1, totalEvaluations = 2, acceptedCount = 1,
       console =
         [LogDatabasePath, LogVectorSearchDebug, LogTotalVideos 2, LogTotalChunks 4,
          LogTrendQuery ''AI layoffs'', LogCandidatesTotal 2, LogTopScores [0.9, 0.3],
          LogReturning 2, LogJsonParseError (js ''Unexpected token''),
          LogRawResponse (substring wrapped_answer 0 500), LogBraceCleanupOk],
       requests = [request_of trend1 candidate1, request_of trend1 candidate2],
       events =
         [EvStart 1, EvTrend (Trend.title trend1), EvYoutube Fetching, EvYoutube Unavailable,
          EvCandidates 2, EvAccepted (title_current video1) (0.8, 0.8, 0.1),
          EvRejected (title_current video2), EvComplete 2 1 1 [result1]],
       trendResults = [result1]\<rparr>, EventStream)"
      by (simp add: match_selected_def corpus_tables process_trend_server_def getTrend_corpus
          getCandidateVideos_server_example evaluate_candidate_server_def candidate_fields e1
          evaluateWithLLM_server_video2 accepted_good_evaluation no fields yt
          row1_def result1_def request_of_def Let_def)
    show "console (fst (match_selected providers corpus (Some [''t1'']))) =
      [LogDatabasePath, LogVectorSearchDebug, LogTotalVideos 2, LogTotalChunks 4,
       LogTrendQuery ''AI layoffs'', LogCandidatesTotal 2, LogTopScores [0.9, 0.3],
       LogReturning 2, LogJsonParseError (js ''Unexpected token''),
       LogRawResponse (substring wrapped_answer 0 500), LogBraceCleanupOk]"
      "tl (events (fst (match_selected providers corpus (Some [''t1''])))) =
      [EvTrend (Trend.title trend1), EvYoutube Fetching, EvYoutube Unavailable,
       EvCandidates 2, EvAccepted (title_current video1) (0.8, 0.8, 0.1),
       EvRejected (title_current video2), EvComplete 2 1 1 [result1]]"
      by (simp_all add: run1)
  qed
  from skipped two one show ?thesis
    by (simp add: getTrend_corpus fresh_server_def)
qed

section \<open>Claim C9: the contract of the cosine similarity\<close>

text \<open>
  C9, for the similarity function as the spec gives it, over real numbers. For two
  vectors of equal length the similarity is the dot product divided by the product of
  the magnitudes, and 0 when either magnitude is zero; it lies between -1 and 1; it is
  symmetric; the similarity of a vector of non-zero magnitude with itself is 1; and
  the similarity of two orthogonal vectors is 0.
\<close>

theorem cosine_similarity_contract:
  assumes "length a = length b"
  shows "cosineSimilarity_spec a b =
       (if magnitude a = 0 \<or> magnitude b = 0 then 0
        else dot a b / (magnitude a * magnitude b)) \<and>
     - 1 \<le> cosineSimilarity_spec a b \<and> cosineSimilarity_spec a b \<le> 1 \<and>
     cosineSimilarity_spec a b = cosineSimilarity_spec b a \<and>
     (magnitude a \<noteq> 0 \<longrightarrow> cosineSimilarity_spec a a = 1) \<and>
     (dot a b = 0 \<longrightarrow> cosineSimilarity_spec a b = 0)"
proof -
  have orthogonal: "dot a b = 0 \<longrightarrow> cosineSimilarity_spec a b = 0"
    by (simp add: cosineSimilarity_spec_def)
  have unfolded: "cosineSimilarity_spec a b =
       (if magnitude a = 0 \<or> magnitude b = 0 then 0
        else dot a b / (magnitude a * magnitude b))"
    by (simp add: cosineSimilarity_spec_def)
  from unfolded orthogonal cosine_bounds [OF assms] cosine_commute [of a b] cosine_self [of a]
  show ?thesis
    by blast
qed

text \<open>
  Two unit vectors of the plane: orthogonal to each other (similarity 0), each
  identical to itself (similarity 1); and the zero vector has similarity 0 with both.
\<close>

theorem cosine_similarity_contract_witness:
  "length [1, 0 :: real] = length [0, 1 :: real] \<and>
   magnitude [1, 0] = 1 \<and> dot [1, 0] [0, 1] = 0 \<and>
   cosineSimilarity_spec [1, 0] [0, 1] = 0 \<and>
   cosineSimilarity_spec [1, 0] [0, 1] = cosineSimilarity_spec [0, 1] [1, 0] \<and>
   cosineSimilarity_spec [1, 0] [1, 0] = 1 \<and>
   cosineSimilarity_spec [0, 0] [1, 0] = 0"
proof -
  have len: "length [1, 0 :: real] = length [0, 1 :: real]"
      "length [1, 0 :: real] = length [1, 0 :: real]"
      "length [0, 0 :: real] = length [1, 0 :: real]"
    by simp_all
  have facts: "magnitude [1, 0] = 1" "dot [1, 0] [0, 1] = 0" "magnitude [0, 0] = 0"
    by (simp_all add: magnitude_def)
  from cosine_similarity_contract [OF len(1)] facts
  have first: "cosineSimilarity_spec [1, 0] [0, 1] = 0"
      "cosineSimilarity_spec [1, 0] [0, 1] = cosineSimilarity_spec [0, 1] [1, 0]"
    by simp_all
  from cosine_similarity_contract [OF len(2)] facts
  have second: "cosineSimilarity_spec [1, 0] [1, 0] = 1"
    by simp
  from cosine_similarity_contract [OF len(3)] facts
  have third: "cosineSimilarity_spec [0, 0] [1, 0] = 0"
    by simp
  from len facts first second third show ?thesis
    by simp
qed

section \<open>Claim C10: totality and coverage of the chunker\<close>

text \<open>
  C10, as amended. \<open>chunkText\<close> is a total function (its loop terminates: the start
  offset advances by \<open>CHUNK_SIZE - CHUNK_OVERLAP = 850\<close> in each iteration), and for
  every input it returns \<open>(length text + 849) div 850\<close> chunks, so none for the empty
  string. Chunk \<open>i\<close> is the window of at most 1000 units starting at offset
  \<open>850 * i\<close>; it is never empty. A chunk followed by at least two more chunks has
  length exactly 1000 and shares exactly its last 150 units with the next chunk; a
  chunk followed by at least one more chunk is longer than 850, and what it has beyond
  its first 850 units is the beginning of the next chunk. Every position \<open>j\<close> of the
  input is in chunk \<open>j div 850\<close>, at offset \<open>j mod 850\<close>.
\<close>

theorem chunkText_windows:
  "CHUNK_SIZE - CHUNK_OVERLAP = 850 \<and>
   chunkText ([] :: 'a list) = [] \<and>
   length (chunkText text) = (length text + 849) div 850 \<and>
   (\<forall>i < length (chunkText text).
      chunkText text ! i = take 1000 (drop (850 * i) text) \<and>
      0 < length (chunkText text ! i) \<and>
      length (chunkText text ! i) \<le> 1000 \<and>
      (i + 2 < length (chunkText text) \<longrightarrow>
         length (chunkText text ! i) = 1000 \<and>
         drop 850 (chunkText text ! i) = take 150 (chunkText text ! (i + 1))) \<and>
      (i + 1 < length (chunkText text) \<longrightarrow>
         850 < length (chunkText text ! i) \<and>
         drop 850 (chunkText text ! i) =
           take (length (chunkText text ! i) - 850) (chunkText text ! (i + 1)))) \<and>
   (\<forall>j < length text.
      j div 850 < length (chunkText text) \<and>
      j mod 850 < length (chunkText text ! (j div 850)) \<and>
      chunkText text ! (j div 850) ! (j mod 850) = text ! j)"
proof -
  have step: "CHUNK_SIZE - CHUNK_OVERLAP = 850"
    by (simp add: CHUNK_SIZE_def CHUNK_OVERLAP_def)
  have empty: "chunkText ([] :: 'a list) = []"
    by (simp add: chunkText_closed)
  have windows: "chunkText text ! i = take 1000 (drop (850 * i) text) \<and>
      0 < length (chunkText text ! i) \<and>
      length (chunkText text ! i) \<le> 1000 \<and>
      (i + 2 < length (chunkText text) \<longrightarrow>
         length (chunkText text ! i) = 1000 \<and>
         drop 850 (chunkText text ! i) = take 150 (chunkText text ! (i + 1))) \<and>
      (i + 1 < length (chunkText text) \<longrightarrow>
         850 < length (chunkText text ! i) \<and>
         drop 850 (chunkText text ! i) =
           take (length (chunkText text ! i) - 850) (chunkText text ! (i + 1)))"
    if i: "i < length (chunkText text)" for i
  proof -
    have full: "length (chunkText text ! i) = 1000 \<and>
        drop 850 (chunkText text ! i) = take 150 (chunkText text ! (i + 1))"
      if "i + 2 < length (chunkText text)"
    proof -
      from that have "i + 1 < length (chunkText text)"
        by simp
      from chunk_overlap [OF this] chunk_full [OF that] show ?thesis
        by simp
    qed
    have w: "chunkText text ! i = take 1000 (drop (850 * i) text)"
      using i by (rule nth_chunkText)
    have pos: "0 < length (chunkText text ! i)"
      using i by (rule chunk_nonempty)
    have le: "length (chunkText text ! i) \<le> 1000"
      using i by (simp add: length_chunk)
    from w pos le full chunk_before_last [of i "text"] chunk_overlap [of i "text"]
    show ?thesis
      by blast
  qed
  from step empty windows chunk_covers [of _ "text"] show ?thesis
    by (simp only: length_chunkText [symmetric] simp_thms) blast
qed

text \<open>
  An instance: a text of 2000 units gives three chunks of 1000, 1000 and 300 units,
  the first being followed by two more.
\<close>

theorem chunkText_windows_witness:
  "length (chunkText (replicate 2000 (0::nat))) = 3 \<and>
   (0::nat) + 2 < length (chunkText (replicate 2000 (0::nat))) \<and>
   length (chunkText (replicate 2000 (0::nat)) ! 0) = 1000 \<and>
   drop 850 (chunkText (replicate 2000 (0::nat)) ! 0) =
     take 150 (chunkText (replicate 2000 (0::nat)) ! 1) \<and>
   (1999::nat) < length (replicate 2000 (0::nat)) \<and>
   chunkText (replicate 2000 (0::nat)) ! 2 ! 299 = replicate 2000 (0::nat) ! 1999"
proof -
  have "length (chunkText (replicate 2000 (0::nat))) =
      (length (replicate 2000 (0::nat)) + 849) div 850"
    using chunkText_windows [of "replicate 2000 (0::nat)"] by blast
  then have n: "length (chunkText (replicate 2000 (0::nat))) = 3"
    by simp
  have i0: "(0::nat) < length (chunkText (replicate 2000 (0::nat)))"
    by (simp add: n)
  have i2: "(0::nat) + 2 < length (chunkText (replicate 2000 (0::nat)))"
    by (simp add: n)
  note at0 = chunkText_windows [of "replicate 2000 (0::nat)", THEN conjunct2, THEN conjunct2,
      THEN conjunct2, THEN conjunct1, rule_format, OF i0]
  from at0 i2
  have first: "length (chunkText (replicate 2000 (0::nat)) ! 0) = 1000 \<and>
      drop 850 (chunkText (replicate 2000 (0::nat)) ! 0) =
        take 150 (chunkText (replicate 2000 (0::nat)) ! (0 + 1))"
    by blast
  have "(1999::nat) < length (replicate 2000 (0::nat))"
    by simp
  with chunkText_windows [of "replicate 2000 (0::nat)"]
  have "chunkText (replicate 2000 (0::nat)) ! (1999 div 850) ! (1999 mod 850) =
      replicate 2000 (0::nat) ! 1999"
    by blast
  then have last: "chunkText (replicate 2000 (0::nat)) ! 2 ! 299 = replicate 2000 (0::nat) ! 1999"
    by simp
  from n i2 first last show ?thesis
    by simp
qed

text \<open>
  The claim as stated fails on a text of 900 units: it is cut into two chunks, of 900
  and of 50 units, so the chunk before the last one has not 1000 units, and the two
  chunks share 50 units, not 150.
\<close>

theorem chunkText_short_chunk_before_last:
  "map length (chunkText (replicate 900 (0::nat))) = [900, 50] \<and>
   length (chunkText (replicate 900 (0::nat)) ! 0) \<noteq> 1000 \<and>
   length (drop 850 (chunkText (replicate 900 (0::nat)) ! 0)) = 50"
  by code_simp

end
